theory Spec2Isabelle
  imports Main "HOL-Library.Word"
begin

section \<open>JavaScript values used by the two handlers\<close>

text \<open>
  A JavaScript string is a sequence of 16-bit code units and a Buffer a sequence of
  bytes. \<open>lit\<close> writes a string literal of the source (all of them are ASCII).
\<close>

type_synonym code_unit = "16 word"
type_synonym jsstring = "code_unit list"
type_synonym byte = "8 word"

definition lit :: "string \<Rightarrow> jsstring" where
  "lit s = map (\<lambda>c. of_nat (of_char c :: nat)) s"

text \<open>
  \<open>x || d\<close> where \<open>x\<close> is a string, \<open>null\<close> or \<open>undefined\<close>: the empty string is
  falsy as well.
\<close>

fun or_default :: "jsstring option \<Rightarrow> jsstring \<Rightarrow> jsstring" where
  "or_default None d = d"
| "or_default (Some s) d = (if s = [] then d else s)"

text \<open>\<open>s.startsWith(p)\<close>.\<close>

definition startsWith :: "jsstring \<Rightarrow> jsstring \<Rightarrow> bool" where
  "startsWith s p = (take (length p) s = p)"

text \<open>
  \<open>s.split(d)\<close> for a one-character separator: the pieces between the separators,
  at least one piece (\<open>''.split('/')\<close> is \<open>['']\<close>).
\<close>

fun split :: "jsstring \<Rightarrow> code_unit \<Rightarrow> jsstring list" where
  "split [] d = [[]]"
| "split (c # cs) d =
     (if c = d then [] # split cs d
      else (case split cs d of [] \<Rightarrow> [[c]] | p # ps \<Rightarrow> (c # p) # ps))"

text \<open>\<open>xs[i]\<close> on an array: \<open>undefined\<close> out of range.\<close>

definition at_index :: "'a list \<Rightarrow> nat \<Rightarrow> 'a option" where
  "at_index xs i = (if i < length xs then Some (xs ! i) else None)"

text \<open>
  The file extension of the refined variant, \<open>mimeType.split('/')[1] || 'img'\<close>;
  47 is the code unit of \<open>/\<close>.
\<close>

definition extension_of :: "jsstring \<Rightarrow> jsstring" where
  "extension_of mimeType = or_default (at_index (split mimeType 47) 1) (lit ''img'')"

text \<open>
  \<open>s.trim()\<close> removes the leading and trailing WhiteSpace and LineTerminator code units
  of ECMAScript: TAB, LF, VT, FF, CR, SP, NBSP, U+1680, U+2000 to U+200A, LS, PS,
  U+202F, U+205F, U+3000 and the byte order mark.
\<close>

definition isWhiteSpace :: "code_unit \<Rightarrow> bool" where
  "isWhiteSpace c =
     (c \<in> {0x09, 0x0A, 0x0B, 0x0C, 0x0D, 0x20, 0xA0, 0x1680, 0x2028, 0x2029, 0x202F,
            0x205F, 0x3000, 0xFEFF}
      \<or> (0x2000 \<le> c \<and> c \<le> 0x200A))"

definition trim :: "jsstring \<Rightarrow> jsstring" where
  "trim s = rev (dropWhile isWhiteSpace (rev (dropWhile isWhiteSpace s)))"

text \<open>
  \<open>encodeURIComponent(s)\<close> throws a URIError (\<open>URI malformed\<close>) when \<open>s\<close> is not
  well-formed UTF-16: when it holds a lone surrogate, a code unit in D800 to DBFF not
  followed by one in DC00 to DFFF, or one in DC00 to DFFF not preceded by one in D800
  to DBFF. Both handlers apply it to the query while they build the search URL.
\<close>

fun isWellFormed :: "jsstring \<Rightarrow> bool" where
  "isWellFormed [] = True"
| "isWellFormed (c # cs) =
     (if 0xD800 \<le> c \<and> c \<le> 0xDBFF then
        (case cs of
           [] \<Rightarrow> False
         | d # ds \<Rightarrow> 0xDC00 \<le> d \<and> d \<le> 0xDFFF \<and> isWellFormed ds)
      else if 0xDC00 \<le> c \<and> c \<le> 0xDFFF then False
      else isWellFormed cs)"

text \<open>The decimal digits of a number inside a template literal (\<open>`${Date.now()}`\<close>).\<close>

fun decimal :: "nat \<Rightarrow> jsstring" where
  "decimal n =
     (if n < 10 then [of_nat (48 + n)]
      else decimal (n div 10) @ [of_nat (48 + n mod 10)])"

declare decimal.simps [simp del]

subsection \<open>\<open>buffer.toString('base64')\<close>\<close>

text \<open>
  Node encodes a Buffer with the base64 alphabet of RFC 4648, section 4, padded with
  \<open>=\<close>. A sextet is a number below 64; \<open>enc_code\<close> is the character code of its
  letter in \<open>A-Z a-z 0-9 + /\<close>.
\<close>

definition enc_code :: "nat \<Rightarrow> nat" where
  "enc_code n =
     (if n < 26 then n + 65
      else if n < 52 then n + 71
      else if n < 62 then n - 4
      else if n = 62 then 43
      else 47)"

definition enc_char :: "nat \<Rightarrow> code_unit" where
  "enc_char n = of_nat (enc_code n)"

definition pad :: code_unit where
  "pad = 61"

fun base64 :: "byte list \<Rightarrow> jsstring" where
  "base64 [] = []"
| "base64 [a] =
     [enc_char (unat a div 4), enc_char ((unat a mod 4) * 16), pad, pad]"
| "base64 [a, b] =
     [enc_char (unat a div 4), enc_char ((unat a mod 4) * 16 + unat b div 16),
      enc_char ((unat b mod 16) * 4), pad]"
| "base64 (a # b # c # rest) =
     [enc_char (unat a div 4), enc_char ((unat a mod 4) * 16 + unat b div 16),
      enc_char ((unat b mod 16) * 4 + unat c div 64), enc_char (unat c mod 64)]
     @ base64 rest"

text \<open>
  The decoder of RFC 4648 a client of the service applies to the \<open>base64\<close> field:
  groups of four characters, the last group padded; \<open>None\<close> on anything else.
\<close>

definition dec_char :: "code_unit \<Rightarrow> nat option" where
  "dec_char c =
     (let n = unat c in
      if 65 \<le> n \<and> n \<le> 90 then Some (n - 65)
      else if 97 \<le> n \<and> n \<le> 122 then Some (n - 71)
      else if 48 \<le> n \<and> n \<le> 57 then Some (n + 4)
      else if n = 43 then Some 62
      else if n = 47 then Some 63
      else None)"

definition decode_group :: "code_unit list \<Rightarrow> byte list option" where
  "decode_group g =
     (case map dec_char g of
        [Some s0, Some s1] \<Rightarrow> Some [of_nat (s0 * 4 + s1 div 16)]
      | [Some s0, Some s1, Some s2] \<Rightarrow>
          Some [of_nat (s0 * 4 + s1 div 16), of_nat ((s1 mod 16) * 16 + s2 div 4)]
      | [Some s0, Some s1, Some s2, Some s3] \<Rightarrow>
          Some [of_nat (s0 * 4 + s1 div 16), of_nat ((s1 mod 16) * 16 + s2 div 4),
                of_nat ((s2 mod 4) * 64 + s3)]
      | _ \<Rightarrow> None)"

fun base64_decode :: "jsstring \<Rightarrow> byte list option" where
  "base64_decode [] = Some []"
| "base64_decode (c0 # c1 # c2 # c3 # rest) =
     (if rest = [] then
        (if c3 = pad then (if c2 = pad then decode_group [c0, c1] else decode_group [c0, c1, c2])
         else decode_group [c0, c1, c2, c3])
      else
        (case decode_group [c0, c1, c2, c3] of
           None \<Rightarrow> None
         | Some bs \<Rightarrow> (case base64_decode rest of None \<Rightarrow> None | Some bs' \<Rightarrow> Some (bs @ bs'))))"
| "base64_decode _ = None"

section \<open>The outside world\<close>

text \<open>
  A promise either rejects with an error (its \<open>message\<close>) or resolves. The handlers
  catch every error and read nothing but the message.
\<close>

datatype 'a outcome = Rejects jsstring | Resolves 'a

text \<open>
  The outbound calls of the two handlers. The search calls carry the query: the rest
  of the URL is fixed by the configuration (the keys, \<open>limit=1&rating=pg-13\<close> for Giphy,
  \<open>searchType=image&num=5&safe=off\<close> for Google). The completion call carries the model
  and the user text (the system message is constant). The image fetch records whether
  the browser User-Agent header is sent.
\<close>

datatype outbound =
    ChatCompletion jsstring jsstring
  | GiphySearch jsstring
  | GoogleSearch jsstring
  | HeadCheck jsstring
  | ImageFetch jsstring bool

text \<open>The part of a node-fetch response the handlers read.\<close>

record 'i search_response =
  sr_ok :: bool
  sr_statusText :: jsstring
  sr_json :: "'i list option outcome"  \<comment> \<open>\<open>await response.json()\<close>, then \<open>.data\<close> or \<open>.items\<close>\<close>

record giphy_item =
  gi_url :: "jsstring option"  \<comment> \<open>\<open>gif.images?.original?.url\<close>\<close>
  gi_title :: jsstring

record google_item =
  link :: jsstring
  title :: jsstring

record head_response =
  hr_ok :: bool
  hr_content_type :: "jsstring option"  \<comment> \<open>\<open>headers.get('content-type')\<close>\<close>

record image_response =
  ir_ok :: bool
  ir_statusText :: jsstring
  ir_content_type :: "jsstring option"
  ir_arrayBuffer :: "byte list outcome"

text \<open>The part of an OpenAI chat completion the refined handler reads.\<close>

record choice =
  content :: "jsstring option"  \<comment> \<open>\<open>message.content\<close>, which may be \<open>null\<close>\<close>

record usage =
  total_tokens :: nat

record completion =
  choices :: "choice list"
  usage :: "usage option"

text \<open>
  The world answers each outbound call. An answer may depend on everything the handler
  has sent so far: each function takes the calls made up to and including the one it
  answers. \<open>w_now\<close> is \<open>Date.now()\<close>, read after the calls given.
\<close>

record world =
  w_completion :: "outbound list \<Rightarrow> completion outcome"
  w_giphy :: "outbound list \<Rightarrow> giphy_item search_response outcome"
  w_google :: "outbound list \<Rightarrow> google_item search_response outcome"
  w_head :: "outbound list \<Rightarrow> head_response outcome"
  w_get :: "outbound list \<Rightarrow> image_response outcome"
  w_now :: "outbound list \<Rightarrow> nat"

section \<open>Requests and replies\<close>

text \<open>
  The request bodies, as \<open>FindMemeRequest\<close> declares them in each file; a field that is
  missing from the JSON is \<open>None\<close>.
\<close>

record simple_args =
  description :: "jsstring option"

record simple_request =
  args :: "simple_args option"

record refined_request =
  text_field :: "jsstring option"  \<comment> \<open>the field \<open>text\<close>\<close>
  model :: "jsstring option"

record artifact =
  art_name :: jsstring
  art_type :: jsstring
  art_base64 :: jsstring
  art_mimeType :: jsstring

text \<open>\<open>responseData\<close>, which the envelope carries through \<open>JSON.stringify\<close>.\<close>

record response_data =
  rd_url :: jsstring
  rd_title :: jsstring
  rd_query :: jsstring

record envelope =
  env_ok :: bool
  tokensUsed :: nat
  artifacts :: "artifact list"
  result :: response_data

datatype reply_body = ErrorBody jsstring | Envelope envelope

record reply =
  status :: nat
  body :: reply_body

text \<open>\<open>res.status(n).json({ error: msg })\<close> and \<open>res.json(result)\<close>.\<close>

definition error_reply :: "nat \<Rightarrow> jsstring \<Rightarrow> reply" where
  "error_reply n msg = \<lparr>status = n, body = ErrorBody msg\<rparr>"

definition json_reply :: "envelope \<Rightarrow> reply" where
  "json_reply e = \<lparr>status = 200, body = Envelope e\<rparr>"

text \<open>
  The body of a handler either throws (\<open>Inl\<close>, the error's message) or sends a reply
  (\<open>Inr\<close>); the \<open>catch\<close> clause of both handlers turns a throw into a 500.
\<close>

definition catch_all :: "(jsstring + reply) \<times> outbound list \<Rightarrow> reply \<times> outbound list" where
  "catch_all r =
     (case r of
        (Inl message, tr) \<Rightarrow> (error_reply 500 message, tr)
      | (Inr rep, tr) \<Rightarrow> (rep, tr))"

section \<open>The simple variant: \<open>src/index.ts\<close>\<close>

definition find_meme_simple_body ::
  "world \<Rightarrow> simple_request \<Rightarrow> (jsstring + reply) \<times> outbound list" where
  "find_meme_simple_body w req =
     (case (case args req of None \<Rightarrow> None | Some a \<Rightarrow> description a) of
        None \<Rightarrow> (Inr (error_reply 400 (lit ''Missing description parameter'')), [])
      | Some d \<Rightarrow>
        if d = [] then (Inr (error_reply 400 (lit ''Missing description parameter'')), [])
        else if \<not> isWellFormed d then (Inl (lit ''URI malformed''), [])
        else
          let tr1 = [GiphySearch d] in
          (case w_giphy w tr1 of
             Rejects e \<Rightarrow> (Inl e, tr1)
           | Resolves response \<Rightarrow>
             if \<not> sr_ok response
             then (Inl (lit ''Giphy API failed: '' @ sr_statusText response), tr1)
             else
               (case sr_json response of
                  Rejects e \<Rightarrow> (Inl e, tr1)
                | Resolves None \<Rightarrow>
                    (Inr (error_reply 404 (lit ''No meme found for this description.'')), tr1)
                | Resolves (Some []) \<Rightarrow>
                    (Inr (error_reply 404 (lit ''No meme found for this description.'')), tr1)
                | Resolves (Some (gif # _)) \<Rightarrow>
                  (case gi_url gif of
                     None \<Rightarrow>
                       (Inr (error_reply 404 (lit ''No valid image URL in Giphy response.'')), tr1)
                   | Some imageUrl \<Rightarrow>
                     if imageUrl = []
                     then (Inr (error_reply 404 (lit ''No valid image URL in Giphy response.'')), tr1)
                     else
                       let tr2 = tr1 @ [ImageFetch imageUrl False] in
                       (case w_get w tr2 of
                          Rejects e \<Rightarrow> (Inl e, tr2)
                        | Resolves imageResponse \<Rightarrow>
                          if \<not> ir_ok imageResponse
                          then (Inl (lit ''Failed to download image: ''
                                       @ ir_statusText imageResponse), tr2)
                          else
                            let mimeType =
                                  or_default (ir_content_type imageResponse) (lit ''image/gif'') in
                            (case ir_arrayBuffer imageResponse of
                               Rejects e \<Rightarrow> (Inl e, tr2)
                             | Resolves buffer \<Rightarrow>
                               let base64Image = base64 buffer;
                                   artifact =
                                     \<lparr>art_name = lit ''meme_'' @ decimal (w_now w tr2) @ lit ''.gif'',
                                      art_type = lit ''image'',
                                      art_base64 = base64Image,
                                      art_mimeType = mimeType\<rparr>;
                                   responseData =
                                     \<lparr>rd_url = imageUrl, rd_title = gi_title gif, rd_query = d\<rparr>
                               in (Inr (json_reply
                                          \<lparr>env_ok = True, tokensUsed = 0,
                                           artifacts = [artifact], result = responseData\<rparr>),
                                   tr2)))))))"

definition find_meme_simple :: "world \<Rightarrow> simple_request \<Rightarrow> reply \<times> outbound list" where
  "find_meme_simple w req = catch_all (find_meme_simple_body w req)"

section \<open>The refined variant: the second source file\<close>

text \<open>The variables the candidate loop assigns.\<close>

record selection =
  imageUrl :: jsstring
  imageTitle :: jsstring
  found :: bool
  mimeType :: jsstring

definition no_selection :: selection where
  "no_selection =
     \<lparr>imageUrl = [], imageTitle = [], found = False,
      mimeType = lit ''application/octet-stream''\<rparr>"

text \<open>
  The loop \<open>for (const item of searchData.items)\<close>: one HEAD check for each item, in
  order, until \<open>break\<close>. An error thrown by the check (the 5 s timeout is one) is
  caught inside the loop, and the loop goes on.
\<close>

fun check_candidates ::
  "world \<Rightarrow> outbound list \<Rightarrow> google_item list \<Rightarrow> selection \<times> outbound list" where
  "check_candidates w tr [] = (no_selection, tr)"
| "check_candidates w tr (item # rest) =
     (let tr' = tr @ [HeadCheck (link item)] in
      case w_head w tr' of
        Rejects e \<Rightarrow> check_candidates w tr' rest
      | Resolves headResponse \<Rightarrow>
          if hr_ok headResponse then
            (let contentType = or_default (hr_content_type headResponse) [] in
             if startsWith contentType (lit ''image/'')
             then (\<lparr>imageUrl = link item, imageTitle = title item, found = True,
                    mimeType = contentType\<rparr>, tr')
             else check_candidates w tr' rest)
          else check_candidates w tr' rest)"

text \<open>
  The handler is one function in the source; it is split here at its own comments
  \<open>Step 2\<close> and \<open>Step 3\<close>. Each step takes the calls made so far and the variables of
  the earlier steps it reads.
\<close>

text \<open>\<open>Step 3: Fetch image and convert to base64\<close>, and the reply.\<close>

definition step3_fetch_image ::
  "world \<Rightarrow> outbound list \<Rightarrow> completion \<Rightarrow> jsstring \<Rightarrow> selection
     \<Rightarrow> (jsstring + reply) \<times> outbound list" where
  "step3_fetch_image w tr3 completion searchQuery sel =
     (let tr4 = tr3 @ [ImageFetch (imageUrl sel) True] in
      case w_get w tr4 of
        Rejects e \<Rightarrow> (Inl e, tr4)
      | Resolves imageResponse \<Rightarrow>
        if \<not> ir_ok imageResponse
        then (Inl (lit ''Failed to download image: '' @ ir_statusText imageResponse), tr4)
        else
          let mimeType =
                or_default (ir_content_type imageResponse) (lit ''application/octet-stream'') in
          if \<not> startsWith mimeType (lit ''image/'')
          then (Inl (lit ''URL returned non-image content: '' @ mimeType), tr4)
          else
            (case ir_arrayBuffer imageResponse of
               Rejects e \<Rightarrow> (Inl e, tr4)
             | Resolves buffer \<Rightarrow>
               let base64Image = base64 buffer;
                   artifact =
                     \<lparr>art_name =
                        lit ''meme_'' @ decimal (w_now w tr4) @ lit ''.'' @ extension_of mimeType,
                      art_type = lit ''image'',
                      art_base64 = base64Image,
                      art_mimeType = mimeType\<rparr>;
                   responseData =
                     \<lparr>rd_url = imageUrl sel, rd_title = imageTitle sel, rd_query = searchQuery\<rparr>
               in (Inr (json_reply
                          \<lparr>env_ok = True,
                           tokensUsed =
                             (case usage completion of
                                None \<Rightarrow> 0
                              | Some u \<Rightarrow> if total_tokens u = 0 then 0 else total_tokens u),
                           artifacts = [artifact],
                           result = responseData\<rparr>),
                   tr4)))"

text \<open>\<open>Step 2: Google Custom Search\<close>, with the candidate loop.\<close>

definition step2_google_search ::
  "world \<Rightarrow> outbound list \<Rightarrow> completion \<Rightarrow> jsstring \<Rightarrow> (jsstring + reply) \<times> outbound list" where
  "step2_google_search w tr1 completion searchQuery =
     (if \<not> isWellFormed searchQuery then (Inl (lit ''URI malformed''), tr1)
      else let tr2 = tr1 @ [GoogleSearch searchQuery] in
      case w_google w tr2 of
        Rejects e \<Rightarrow> (Inl e, tr2)
      | Resolves searchResponse \<Rightarrow>
        if \<not> sr_ok searchResponse
        then (Inl (lit ''Google Search API failed: '' @ sr_statusText searchResponse), tr2)
        else
          (case sr_json searchResponse of
             Rejects e \<Rightarrow> (Inl e, tr2)
           | Resolves None \<Rightarrow>
               (Inr (error_reply 404 (lit ''No meme found for this description.'')), tr2)
           | Resolves (Some items) \<Rightarrow>
             if items = []
             then (Inr (error_reply 404 (lit ''No meme found for this description.'')), tr2)
             else
               (case check_candidates w tr2 items of
                  (sel, tr3) \<Rightarrow>
                    if \<not> found sel
                    then (Inr (error_reply 404
                                 (lit ''No valid image accessible from search results.'')), tr3)
                    else step3_fetch_image w tr3 completion searchQuery sel)))"

text \<open>The validation of the request and \<open>Step 1: Refine query using OpenAI\<close>.\<close>

definition find_meme_refined_body ::
  "world \<Rightarrow> refined_request \<Rightarrow> (jsstring + reply) \<times> outbound list" where
  "find_meme_refined_body w req =
     (let model = (case model req of None \<Rightarrow> lit ''gpt-4o'' | Some m \<Rightarrow> m) in
      case text_field req of
        None \<Rightarrow> (Inr (error_reply 400 (lit ''Missing text parameter'')), [])
      | Some text \<Rightarrow>
        if text = [] then (Inr (error_reply 400 (lit ''Missing text parameter'')), [])
        else
          let tr1 = [ChatCompletion model text] in
          (case w_completion w tr1 of
             Rejects e \<Rightarrow> (Inl e, tr1)
           | Resolves completion \<Rightarrow>
             (case at_index (choices completion) 0 of
                None \<Rightarrow>
                  (Inl (lit ''Cannot read properties of undefined (reading 'message')''), tr1)
              | Some choice0 \<Rightarrow>
                let searchQuery = or_default (map_option trim (content choice0)) text
                in step2_google_search w tr1 completion searchQuery)))"

definition find_meme_refined :: "world \<Rightarrow> refined_request \<Rightarrow> reply \<times> outbound list" where
  "find_meme_refined w req = catch_all (find_meme_refined_body w req)"

section \<open>Notions the properties are stated with\<close>

text \<open>The description the simple handler reads: \<open>(args || {}).description\<close>.\<close>

definition description_of :: "simple_request \<Rightarrow> jsstring option" where
  "description_of req = (case args req of None \<Rightarrow> None | Some a \<Rightarrow> description a)"

text \<open>The model the refined handler sends: the destructuring default \<open>model = 'gpt-4o'\<close>.\<close>

definition requested_model :: "refined_request \<Rightarrow> jsstring" where
  "requested_model req = (case model req of None \<Rightarrow> lit ''gpt-4o'' | Some m \<Rightarrow> m)"

text \<open>The artifacts of a reply: those of its envelope, none in an error reply.\<close>

definition reply_artifacts :: "reply \<Rightarrow> artifact list" where
  "reply_artifacts rep = (case body rep of ErrorBody msg \<Rightarrow> [] | Envelope e \<Rightarrow> artifacts e)"

text \<open>A reply whose body is \<open>{ error: ... }\<close>.\<close>

definition is_error :: "reply \<Rightarrow> bool" where
  "is_error rep = (case body rep of ErrorBody msg \<Rightarrow> True | Envelope e \<Rightarrow> False)"

text \<open>
  A HEAD check accepts its candidate when it resolves with a success status and a
  content type that begins with \<open>image/\<close>. It does not when it throws (an error or
  the timeout), returns a non-success status, or reports no or another content type.
\<close>

definition accepted :: "head_response outcome \<Rightarrow> bool" where
  "accepted r =
     (case r of
        Rejects e \<Rightarrow> False
      | Resolves h \<Rightarrow>
          hr_ok h \<and>
          (case hr_content_type h of None \<Rightarrow> False | Some c \<Rightarrow> startsWith c (lit ''image/'')))"

text \<open>The calls made once the first \<open>n\<close> candidates have been probed after \<open>tr\<close>.\<close>

definition probes :: "outbound list \<Rightarrow> google_item list \<Rightarrow> nat \<Rightarrow> outbound list" where
  "probes tr items n = tr @ map (\<lambda>item. HeadCheck (link item)) (take n items)"

text \<open>The GET of an image, among the outbound calls.\<close>

fun is_image_fetch :: "outbound \<Rightarrow> bool" where
  "is_image_fetch (ImageFetch u ua) = True"
| "is_image_fetch _ = False"

section \<open>Concrete worlds\<close>

text \<open>A world in which every outbound call fails.\<close>

definition offline :: world where
  "offline =
     \<lparr>w_completion = (\<lambda>tr. Rejects (lit ''offline'')),
      w_giphy = (\<lambda>tr. Rejects (lit ''offline'')),
      w_google = (\<lambda>tr. Rejects (lit ''offline'')),
      w_head = (\<lambda>tr. Rejects (lit ''offline'')),
      w_get = (\<lambda>tr. Rejects (lit ''offline'')),
      w_now = (\<lambda>tr. 0)\<rparr>"

text \<open>A successful response of a search API and of an image host.\<close>

definition search_ok :: "'i list option \<Rightarrow> 'i search_response" where
  "search_ok data = \<lparr>sr_ok = True, sr_statusText = lit ''OK'', sr_json = Resolves data\<rparr>"

definition image_ok :: "jsstring option \<Rightarrow> byte list \<Rightarrow> image_response" where
  "image_ok ct bytes =
     \<lparr>ir_ok = True, ir_statusText = lit ''OK'', ir_content_type = ct,
      ir_arrayBuffer = Resolves bytes\<rparr>"

text \<open>Giphy answers with the given items, the image host with the given response.\<close>

definition giphy_world :: "giphy_item list option \<Rightarrow> image_response \<Rightarrow> world" where
  "giphy_world data img =
     offline\<lparr>w_giphy := (\<lambda>tr. Resolves (search_ok data)),
             w_get := (\<lambda>tr. Resolves img),
             w_now := (\<lambda>tr. 1700000000000)\<rparr>"

definition cat_gif :: giphy_item where
  "cat_gif = \<lparr>gi_url = Some (lit ''https://media.giphy.com/cat.gif''), gi_title = lit ''Cat''\<rparr>"

definition cat_request :: simple_request where
  "cat_request = \<lparr>args = Some \<lparr>description = Some (lit ''cat typing'')\<rparr>\<rparr>"

text \<open>
  The language model answers with the given completion, Google with the given items,
  a HEAD check according to the URL probed, the image host with the given response.
\<close>

definition google_world ::
  "completion \<Rightarrow> google_item list option \<Rightarrow> (jsstring \<Rightarrow> head_response outcome)
     \<Rightarrow> image_response \<Rightarrow> world" where
  "google_world c data hd_of img =
     offline\<lparr>w_completion := (\<lambda>tr. Resolves c),
             w_google := (\<lambda>tr. Resolves (search_ok data)),
             w_head := (\<lambda>tr. case rev tr of HeadCheck u # earlier \<Rightarrow> hd_of u
                              | _ \<Rightarrow> Rejects (lit ''offline'')),
             w_get := (\<lambda>tr. Resolves img),
             w_now := (\<lambda>tr. 1700000000000)\<rparr>"

definition deploy_request :: refined_request where
  "deploy_request = \<lparr>text_field = Some (lit ''when the deploy fails''), model = None\<rparr>"

definition deploy_completion :: completion where
  "deploy_completion =
     \<lparr>choices = [\<lparr>content = Some (lit '' deploy fail panic meme '')\<rparr>],
      usage = Some \<lparr>total_tokens = 57\<rparr>\<rparr>"

definition silent_completion :: completion where
  "silent_completion = \<lparr>choices = [\<lparr>content = Some (lit ''  '')\<rparr>], usage = None\<rparr>"

definition five_items :: "google_item list" where
  "five_items =
     [\<lparr>link = lit ''a'', title = lit ''A''\<rparr>, \<lparr>link = lit ''b'', title = lit ''B''\<rparr>,
      \<lparr>link = lit ''c'', title = lit ''C''\<rparr>, \<lparr>link = lit ''d'', title = lit ''D''\<rparr>,
      \<lparr>link = lit ''e'', title = lit ''E''\<rparr>]"

text \<open>
  Only \<open>c\<close> is a reachable image: \<open>a\<close> times out, \<open>b\<close> is a web page, and the
  others answer 404.
\<close>

definition third_only :: "jsstring \<Rightarrow> head_response outcome" where
  "third_only u =
     (if u = lit ''a'' then Rejects (lit ''network timeout'')
      else if u = lit ''b'' then Resolves \<lparr>hr_ok = True, hr_content_type = Some (lit ''text/html'')\<rparr>
      else if u = lit ''c'' then Resolves \<lparr>hr_ok = True, hr_content_type = Some (lit ''image/png'')\<rparr>
      else Resolves \<lparr>hr_ok = False, hr_content_type = Some (lit ''image/png'')\<rparr>)"

text \<open>No candidate is an image: \<open>a\<close> times out and the others are web pages.\<close>

definition no_image :: "jsstring \<Rightarrow> head_response outcome" where
  "no_image u =
     (if u = lit ''a'' then Rejects (lit ''network timeout'')
      else Resolves \<lparr>hr_ok = True, hr_content_type = Some (lit ''text/html'')\<rparr>)"

text \<open>Giphy finds the cat; the image host serves a PNG, or an empty body without a type.\<close>

definition png_cat_world :: world where
  "png_cat_world =
     giphy_world (Some [cat_gif]) (image_ok (Some (lit ''image/png'')) [137, 80, 78, 71])"

definition empty_cat_world :: world where
  "empty_cat_world = giphy_world (Some [cat_gif]) (image_ok None [])"

text \<open>
  Scenario 2 of the specification: the model refines the query, Google returns five
  items of which only the third is a reachable image, and the host serves a JPEG.
\<close>

definition deploy_world :: world where
  "deploy_world =
     google_world deploy_completion (Some five_items) third_only
       (image_ok (Some (lit ''image/jpeg'')) [1, 2, 3])"

text \<open>The same with no reachable image among the five.\<close>

definition no_image_world :: world where
  "no_image_world =
     google_world deploy_completion (Some five_items) no_image
       (image_ok (Some (lit ''image/jpeg'')) [1, 2, 3])"

text \<open>The search succeeds with an empty list (Giphy) or without a list (Google).\<close>

definition no_gif_world :: world where
  "no_gif_world = giphy_world (Some []) (image_ok None [])"

definition no_result_world :: world where
  "no_result_world =
     google_world deploy_completion None third_only
       (image_ok (Some (lit ''image/jpeg'')) [1, 2, 3])"

text \<open>The model answers with blanks only.\<close>

definition silent_world :: world where
  "silent_world =
     google_world silent_completion (Some []) third_only
       (image_ok (Some (lit ''image/jpeg'')) [1, 2, 3])"

text \<open>Scenario 2 with an image host that sends no content type.\<close>

definition untyped_world :: world where
  "untyped_world =
     google_world deploy_completion (Some five_items) third_only (image_ok None [1, 2, 3])"

section \<open>Lemmas\<close>

subsection \<open>Base64\<close>

lemma unat_enc_char: "n < 64 \<Longrightarrow> unat (enc_char n) = enc_code n"
proof -
  assume "n < 64"
  then have "enc_code n < 2 ^ LENGTH(16)" by (auto simp: enc_code_def)
  then show ?thesis unfolding enc_char_def by (simp only: unat_of_nat mod_less)
qed

lemma dec_enc_char: "n < 64 \<Longrightarrow> dec_char (enc_char n) = Some n"
  unfolding dec_char_def Let_def by (simp only: unat_enc_char) (auto simp: enc_code_def)

lemma dec_char_pad: "dec_char pad = None"
  by (simp add: dec_char_def pad_def)

lemma enc_char_not_pad: "n < 64 \<Longrightarrow> enc_char n \<noteq> pad"
  using dec_enc_char [of n] dec_char_pad by auto

lemma base64_Nil_iff: "base64 bs = [] \<longleftrightarrow> bs = []"
  by (cases bs rule: base64.cases) auto

lemma byte_bound: "unat (a :: byte) < 256"
  using unsigned_less [of a, where ?'a = nat] by simp

lemma sextets_bound:
  fixes a b c :: byte
  shows "unat a div 4 < 64" "(unat a mod 4) * 16 + unat b div 16 < 64"
    "(unat b mod 16) * 4 + unat c div 64 < 64" "unat c mod 64 < 64"
    "(unat a mod 4) * 16 < 64" "(unat b mod 16) * 4 < 64"
  using byte_bound [of a] byte_bound [of b] byte_bound [of c] by simp_all

lemma first_byte:
  fixes a b :: byte
  shows "(of_nat (unat a div 4 * 4 + ((unat a mod 4) * 16 + unat b div 16) div 16) :: byte) = a"
proof -
  have "unat b div 16 < 16" using byte_bound [of b] by simp
  then have "((unat a mod 4) * 16 + unat b div 16) div 16 = unat a mod 4" by simp
  then show ?thesis by simp
qed

lemma first_byte_only:
  fixes a :: byte
  shows "(of_nat (unat a div 4 * 4 + ((unat a mod 4) * 16) div 16) :: byte) = a"
  by simp

lemma second_byte:
  fixes a b c :: byte
  shows "(of_nat ((((unat a mod 4) * 16 + unat b div 16) mod 16) * 16
           + ((unat b mod 16) * 4 + unat c div 64) div 4) :: byte) = b"
proof -
  have "unat b div 16 < 16" using byte_bound [of b] by simp
  then have 1: "((unat a mod 4) * 16 + unat b div 16) mod 16 = unat b div 16" by simp
  have "unat c div 64 < 4" using byte_bound [of c] by simp
  then have 2: "((unat b mod 16) * 4 + unat c div 64) div 4 = unat b mod 16" by simp
  show ?thesis unfolding 1 2 by simp
qed

lemma second_byte_only:
  fixes a b :: byte
  shows "(of_nat ((((unat a mod 4) * 16 + unat b div 16) mod 16) * 16
           + ((unat b mod 16) * 4) div 4) :: byte) = b"
proof -
  have "unat b div 16 < 16" using byte_bound [of b] by simp
  then have 1: "((unat a mod 4) * 16 + unat b div 16) mod 16 = unat b div 16" by simp
  show ?thesis unfolding 1 by simp
qed

lemma third_byte:
  fixes b c :: byte
  shows "(of_nat ((((unat b mod 16) * 4 + unat c div 64) mod 4) * 64 + unat c mod 64) :: byte) = c"
proof -
  have "unat c div 64 < 4" using byte_bound [of c] by simp
  then have 1: "((unat b mod 16) * 4 + unat c div 64) mod 4 = unat c div 64" by simp
  show ?thesis unfolding 1 by simp
qed

lemma decode_group4:
  fixes a b c :: byte
  shows "decode_group
     [enc_char (unat a div 4), enc_char ((unat a mod 4) * 16 + unat b div 16),
      enc_char ((unat b mod 16) * 4 + unat c div 64), enc_char (unat c mod 64)] = Some [a, b, c]"
  unfolding decode_group_def
  by (simp only: list.map dec_enc_char sextets_bound list.case option.case
      first_byte second_byte third_byte)

lemma decode_group3:
  fixes a b :: byte
  shows "decode_group
     [enc_char (unat a div 4), enc_char ((unat a mod 4) * 16 + unat b div 16),
      enc_char ((unat b mod 16) * 4)] = Some [a, b]"
  unfolding decode_group_def
  by (simp only: list.map dec_enc_char sextets_bound list.case option.case
      first_byte second_byte_only)

lemma decode_group2:
  fixes a :: byte
  shows "decode_group [enc_char (unat a div 4), enc_char ((unat a mod 4) * 16)] = Some [a]"
  unfolding decode_group_def
  by (simp only: list.map dec_enc_char sextets_bound list.case option.case first_byte_only)

lemma base64_roundtrip: "base64_decode (base64 bs) = Some bs"
proof (induction bs rule: base64.induct)
  case 1
  show ?case by simp
next
  case (2 a)
  show ?case by (simp add: decode_group2)
next
  case (3 a b)
  show ?case by (simp add: decode_group3 enc_char_not_pad sextets_bound)
next
  case (4 a b c rest)
  then show ?case
    by (simp add: decode_group4 enc_char_not_pad sextets_bound base64_Nil_iff)
qed


subsection \<open>The candidate loop\<close>

lemma startsWith_empty: "\<not> startsWith [] (lit ''image/'')"
  by (simp add: startsWith_def lit_def)

lemma or_default_image:
  "startsWith (or_default ct []) (lit ''image/'')
     \<longleftrightarrow> (case ct of None \<Rightarrow> False | Some c \<Rightarrow> startsWith c (lit ''image/''))"
  by (cases ct) (auto simp: startsWith_empty)

lemma probes_Cons:
  "probes (tr @ [HeadCheck (link item)]) rest n = probes tr (item # rest) (Suc n)"
  by (simp add: probes_def)

lemma check_candidates_step:
  "check_candidates w tr (item # rest) =
     (if accepted (w_head w (tr @ [HeadCheck (link item)]))
      then (\<lparr>imageUrl = link item, imageTitle = title item, found = True,
             mimeType = or_default
               (case w_head w (tr @ [HeadCheck (link item)]) of
                  Resolves h \<Rightarrow> hr_content_type h | Rejects e \<Rightarrow> None) []\<rparr>,
            tr @ [HeadCheck (link item)])
      else check_candidates w (tr @ [HeadCheck (link item)]) rest)"
  by (auto simp: accepted_def Let_def or_default_image split: outcome.splits option.splits)

lemma check_candidates_spec:
  "check_candidates w tr items = (sel, tr') \<Longrightarrow>
     (if found sel
      then \<exists>k<length items.
             accepted (w_head w (probes tr items (Suc k)))
           \<and> (\<forall>i<k. \<not> accepted (w_head w (probes tr items (Suc i))))
           \<and> tr' = probes tr items (Suc k)
           \<and> imageUrl sel = link (items ! k) \<and> imageTitle sel = title (items ! k)
      else (\<forall>i<length items. \<not> accepted (w_head w (probes tr items (Suc i))))
           \<and> tr' = probes tr items (length items))"
proof (induction items arbitrary: tr)
  case Nil
  then show ?case by (auto simp: no_selection_def probes_def)
next
  case (Cons item rest)
  let ?tr1 = "tr @ [HeadCheck (link item)]"
  have first: "probes tr (item # rest) (Suc 0) = ?tr1"
    by (simp add: probes_def)
  show ?case
  proof (cases "accepted (w_head w ?tr1)")
    case True
    with Cons.prems have "found sel" "tr' = ?tr1" "imageUrl sel = link item"
      "imageTitle sel = title item"
      by (auto simp: check_candidates_step simp del: check_candidates.simps)
    with True first show ?thesis
      by (auto intro!: exI [of _ 0])
  next
    case False
    with Cons.prems have rec: "check_candidates w ?tr1 rest = (sel, tr')"
      by (simp add: check_candidates_step del: check_candidates.simps)
    note ih = Cons.IH [OF rec, unfolded probes_Cons]
    show ?thesis
    proof (cases "found sel")
      case True
      with ih obtain k where k: "k < length rest"
        "accepted (w_head w (probes tr (item # rest) (Suc (Suc k))))"
        "\<forall>i<k. \<not> accepted (w_head w (probes tr (item # rest) (Suc (Suc i))))"
        "tr' = probes tr (item # rest) (Suc (Suc k))"
        "imageUrl sel = link (rest ! k)" "imageTitle sel = title (rest ! k)"
        by auto
      have "\<forall>i<Suc k. \<not> accepted (w_head w (probes tr (item # rest) (Suc i)))"
      proof (intro allI impI)
        fix i assume "i < Suc k"
        then show "\<not> accepted (w_head w (probes tr (item # rest) (Suc i)))"
          using k(3) False first by (cases i) auto
      qed
      with k True show ?thesis
        by (auto intro!: exI [of _ "Suc k"])
    next
      case nf: False
      with ih have all: "\<forall>i<length rest. \<not> accepted (w_head w (probes tr (item # rest) (Suc (Suc i))))"
        and tr': "tr' = probes tr (item # rest) (Suc (length rest))"
        by auto
      have "\<forall>i<length (item # rest). \<not> accepted (w_head w (probes tr (item # rest) (Suc i)))"
      proof (intro allI impI)
        fix i assume "i < length (item # rest)"
        then show "\<not> accepted (w_head w (probes tr (item # rest) (Suc i)))"
          using all False first by (cases i) auto
      qed
      with nf tr' show ?thesis by simp
    qed
  qed
qed


subsection \<open>Literals\<close>

lemma octet_stream_not_image: "\<not> startsWith (lit ''application/octet-stream'') (lit ''image/'')"
  by (simp add: startsWith_def lit_def)

lemma or_default_octet_image:
  "startsWith (or_default ct (lit ''application/octet-stream'')) (lit ''image/'')
     \<Longrightarrow> \<exists>mt. ct = Some mt \<and> or_default ct (lit ''application/octet-stream'') = mt
            \<and> startsWith mt (lit ''image/'')"
  by (cases ct) (auto simp: octet_stream_not_image)

subsection \<open>The simple handler\<close>

lemma simple_missing:
  assumes "description_of req = None \<or> description_of req = Some []"
  shows "find_meme_simple w req = (error_reply 400 (lit ''Missing description parameter''), [])"
proof -
  from assms have "find_meme_simple_body w req
      = (Inr (error_reply 400 (lit ''Missing description parameter'')), [])"
    unfolding find_meme_simple_body_def description_of_def by (elim disjE) simp_all
  then show ?thesis by (simp add: find_meme_simple_def catch_all_def)
qed

lemma simple_no_items:
  assumes "description_of req = Some d" and "d \<noteq> []"
    and "w_giphy w [GiphySearch d] = Resolves resp" and "sr_ok resp"
    and "sr_json resp = Resolves None \<or> sr_json resp = Resolves (Some [])"
    and "isWellFormed d"
  shows "find_meme_simple w req
           = (error_reply 404 (lit ''No meme found for this description.''), [GiphySearch d])"
proof -
  have "find_meme_simple_body w req
      = (Inr (error_reply 404 (lit ''No meme found for this description.'')), [GiphySearch d])"
    using assms(5)
  proof
    assume "sr_json resp = Resolves None"
    with assms(1-4) assms(6) show ?thesis
      unfolding find_meme_simple_body_def description_of_def by simp
  next
    assume "sr_json resp = Resolves (Some [])"
    with assms(1-4) assms(6) show ?thesis
      unfolding find_meme_simple_body_def description_of_def by simp
  qed
  then show ?thesis by (simp add: find_meme_simple_def catch_all_def)
qed

lemma simple_success:
  assumes "find_meme_simple w req = (rep, tr)" and "status rep = 200"
  shows "\<exists>a d resp gif rest url ir buf.
           args req = Some a \<and> description a = Some d \<and> d \<noteq> [] \<and> isWellFormed d
         \<and> w_giphy w [GiphySearch d] = Resolves resp \<and> sr_ok resp
         \<and> sr_json resp = Resolves (Some (gif # rest))
         \<and> gi_url gif = Some url \<and> url \<noteq> []
         \<and> tr = [GiphySearch d, ImageFetch url False]
         \<and> w_get w tr = Resolves ir \<and> ir_ok ir \<and> ir_arrayBuffer ir = Resolves buf
         \<and> rep = json_reply
              \<lparr>env_ok = True, tokensUsed = 0,
               artifacts =
                 [\<lparr>art_name = lit ''meme_'' @ decimal (w_now w tr) @ lit ''.gif'',
                   art_type = lit ''image'', art_base64 = base64 buf,
                   art_mimeType = or_default (ir_content_type ir) (lit ''image/gif'')\<rparr>],
               result = \<lparr>rd_url = url, rd_title = gi_title gif, rd_query = d\<rparr>\<rparr>"
  using assms
  unfolding find_meme_simple_def find_meme_simple_body_def catch_all_def error_reply_def Let_def
  by (auto split: option.splits if_splits outcome.splits list.splits)

subsection \<open>The refined handler\<close>

lemma refined_missing:
  assumes "text_field req = None \<or> text_field req = Some []"
  shows "find_meme_refined w req = (error_reply 400 (lit ''Missing text parameter''), [])"
proof -
  have "find_meme_refined_body w req = (Inr (error_reply 400 (lit ''Missing text parameter'')), [])"
    using assms
  proof
    assume "text_field req = None"
    then show ?thesis unfolding find_meme_refined_body_def by simp
  next
    assume "text_field req = Some []"
    then show ?thesis unfolding find_meme_refined_body_def by simp
  qed
  then show ?thesis by (simp add: find_meme_refined_def catch_all_def)
qed

lemma refined_reaches_step2:
  assumes "text_field req = Some text" and "text \<noteq> []"
    and "w_completion w [ChatCompletion (requested_model req) text] = Resolves c"
    and "choices c = ch # chs"
  shows "find_meme_refined_body w req
           = step2_google_search w [ChatCompletion (requested_model req) text] c
               (or_default (map_option trim (content ch)) text)"
  using assms unfolding find_meme_refined_body_def requested_model_def
  by (simp add: at_index_def)

lemma tokens_or_zero:
  "(case u of None \<Rightarrow> 0 | Some x \<Rightarrow> if total_tokens x = 0 then 0 else total_tokens x)
     = (case u of None \<Rightarrow> 0 | Some x \<Rightarrow> total_tokens x)"
  by (cases u) simp_all

lemma step3_success:
  assumes "step3_fetch_image w tr3 c q sel = (Inr rep, tr)"
  shows "\<exists>ir mt buf.
           tr = tr3 @ [ImageFetch (imageUrl sel) True]
         \<and> w_get w tr = Resolves ir \<and> ir_ok ir
         \<and> ir_content_type ir = Some mt \<and> startsWith mt (lit ''image/'')
         \<and> ir_arrayBuffer ir = Resolves buf
         \<and> rep = json_reply
              \<lparr>env_ok = True,
               tokensUsed = (case usage c of None \<Rightarrow> 0 | Some u \<Rightarrow> total_tokens u),
               artifacts =
                 [\<lparr>art_name = lit ''meme_'' @ decimal (w_now w tr) @ lit ''.'' @ extension_of mt,
                   art_type = lit ''image'', art_base64 = base64 buf, art_mimeType = mt\<rparr>],
               result = \<lparr>rd_url = imageUrl sel, rd_title = imageTitle sel, rd_query = q\<rparr>\<rparr>"
proof -
  let ?tr4 = "tr3 @ [ImageFetch (imageUrl sel) True]"
  note run = assms [unfolded step3_fetch_image_def Let_def]
  obtain ir where ir: "w_get w ?tr4 = Resolves ir"
    using run by (cases "w_get w ?tr4") simp_all
  have ok: "ir_ok ir"
    using run ir by (cases "ir_ok ir") simp_all
  have "startsWith (or_default (ir_content_type ir) (lit ''application/octet-stream''))
          (lit ''image/'')"
    using run ir ok
    by (cases "startsWith (or_default (ir_content_type ir) (lit ''application/octet-stream''))
          (lit ''image/'')") simp_all
  then obtain mt where mt: "ir_content_type ir = Some mt"
      "or_default (ir_content_type ir) (lit ''application/octet-stream'') = mt"
      "startsWith mt (lit ''image/'')"
    using or_default_octet_image by blast
  obtain buf where buf: "ir_arrayBuffer ir = Resolves buf"
    using run ir ok mt by (cases "ir_arrayBuffer ir") simp_all
  from run ir ok mt buf have "tr = ?tr4" and "rep = json_reply
              \<lparr>env_ok = True,
               tokensUsed = (case usage c of None \<Rightarrow> 0 | Some u \<Rightarrow> total_tokens u),
               artifacts =
                 [\<lparr>art_name = lit ''meme_'' @ decimal (w_now w ?tr4) @ lit ''.'' @ extension_of mt,
                   art_type = lit ''image'', art_base64 = base64 buf, art_mimeType = mt\<rparr>],
               result = \<lparr>rd_url = imageUrl sel, rd_title = imageTitle sel, rd_query = q\<rparr>\<rparr>"
    by (auto simp: tokens_or_zero)
  with ir ok mt buf show ?thesis by simp
qed

lemma step3_trace: "snd (step3_fetch_image w tr3 c q sel) = tr3 @ [ImageFetch (imageUrl sel) True]"
  unfolding step3_fetch_image_def Let_def
  by (simp split: outcome.splits)

lemma catch_all_200:
  assumes "catch_all r = (rep, tr)" and "status rep = 200"
  shows "r = (Inr rep, tr)"
  using assms unfolding catch_all_def error_reply_def
  by (cases r; cases "fst r") auto

lemma step2_no_items:
  assumes "w_google w (tr1 @ [GoogleSearch q]) = Resolves sr" and "sr_ok sr"
    and "sr_json sr = Resolves None \<or> sr_json sr = Resolves (Some [])"
    and "isWellFormed q"
  shows "step2_google_search w tr1 c q
           = (Inr (error_reply 404 (lit ''No meme found for this description.'')),
              tr1 @ [GoogleSearch q])"
  using assms(3)
proof
  assume "sr_json sr = Resolves None"
  with assms(1,2,4) show ?thesis unfolding step2_google_search_def by simp
next
  assume "sr_json sr = Resolves (Some [])"
  with assms(1,2,4) show ?thesis unfolding step2_google_search_def by simp
qed

lemma step2_candidates:
  assumes "w_google w (tr1 @ [GoogleSearch q]) = Resolves sr" and "sr_ok sr"
    and "sr_json sr = Resolves (Some items)" and "items \<noteq> []"
    and "check_candidates w (tr1 @ [GoogleSearch q]) items = (sel, tr3)"
    and "isWellFormed q"
  shows "step2_google_search w tr1 c q
           = (if \<not> found sel
              then (Inr (error_reply 404 (lit ''No valid image accessible from search results.'')),
                    tr3)
              else step3_fetch_image w tr3 c q sel)"
  using assms unfolding step2_google_search_def by simp

lemma step2_success:
  assumes "step2_google_search w tr1 c q = (Inr rep, tr)" and "status rep = 200"
  shows "\<exists>sr items sel tr3.
           isWellFormed q
         \<and> w_google w (tr1 @ [GoogleSearch q]) = Resolves sr \<and> sr_ok sr
         \<and> sr_json sr = Resolves (Some items) \<and> items \<noteq> []
         \<and> check_candidates w (tr1 @ [GoogleSearch q]) items = (sel, tr3) \<and> found sel
         \<and> step3_fetch_image w tr3 c q sel = (Inr rep, tr)"
proof -
  let ?tr2 = "tr1 @ [GoogleSearch q]"
  note run0 = assms(1) [unfolded step2_google_search_def Let_def]
  have wf: "isWellFormed q"
    using run0 by (cases "isWellFormed q") simp_all
  note run = run0 [simplified wf, simplified]
  obtain sr where sr: "w_google w ?tr2 = Resolves sr"
    using run by (cases "w_google w ?tr2") simp_all
  have ok: "sr_ok sr"
    using run sr by (cases "sr_ok sr") simp_all
  obtain data where data: "sr_json sr = Resolves data"
    using run sr ok by (cases "sr_json sr") simp_all
  obtain items where items: "data = Some items"
    using run sr ok data assms(2) by (cases data) (auto simp: error_reply_def)
  have ne: "items \<noteq> []"
    using run sr ok data items assms(2) by (cases items) (auto simp: error_reply_def)
  obtain sel tr3 where cc: "check_candidates w ?tr2 items = (sel, tr3)"
    by (cases "check_candidates w ?tr2 items") auto
  have f: "found sel"
    using run sr ok data items ne cc assms(2)
    by (cases "found sel") (auto simp: error_reply_def)
  have "step3_fetch_image w tr3 c q sel = (Inr rep, tr)"
    using run sr ok data items ne cc f by simp
  with wf sr ok data items ne cc f show ?thesis by simp
qed

lemma refined_body_success:
  assumes "find_meme_refined_body w req = (Inr rep, tr)" and "status rep = 200"
  shows "\<exists>text c ch chs.
           text_field req = Some text \<and> text \<noteq> []
         \<and> w_completion w [ChatCompletion (requested_model req) text] = Resolves c
         \<and> choices c = ch # chs
         \<and> step2_google_search w [ChatCompletion (requested_model req) text] c
              (or_default (map_option trim (content ch)) text) = (Inr rep, tr)"
proof -
  note run = assms(1) [unfolded find_meme_refined_body_def Let_def, folded requested_model_def]
  obtain t where t: "text_field req = Some t"
    using run assms(2) by (cases "text_field req") (auto simp: error_reply_def)
  have ne: "t \<noteq> []"
    using run t assms(2) by (cases t) (auto simp: error_reply_def)
  let ?tr1 = "[ChatCompletion (requested_model req) t]"
  obtain c where c: "w_completion w ?tr1 = Resolves c"
    using run t ne by (cases "w_completion w ?tr1") simp_all
  obtain ch chs where ch: "choices c = ch # chs"
    using run t ne c by (cases "choices c") (simp_all add: at_index_def)
  have "step2_google_search w ?tr1 c (or_default (map_option trim (content ch)) t)
          = (Inr rep, tr)"
    using run t ne c ch by (simp add: at_index_def)
  with t ne c ch show ?thesis by simp
qed

subsection \<open>The extension\<close>

lemma split_shape: "\<exists>ps. split s d = takeWhile (\<lambda>c. c \<noteq> d) s # ps"
proof (induction s)
  case Nil
  show ?case by simp
next
  case (Cons c cs)
  then obtain ps where "split cs d = takeWhile (\<lambda>c. c \<noteq> d) cs # ps" by blast
  then show ?case by simp
qed

lemma extension_of_image:
  assumes "startsWith mt (lit ''image/'')"
  shows "extension_of mt
           = (if takeWhile (\<lambda>c. c \<noteq> 47) (drop 6 mt) = [] then lit ''img''
              else takeWhile (\<lambda>c. c \<noteq> 47) (drop 6 mt))"
proof -
  have "length (lit ''image/'') = 6"
    by (simp add: lit_def)
  with assms have "take 6 mt = lit ''image/''"
    by (simp add: startsWith_def)
  then have mt: "mt = lit ''image/'' @ drop 6 mt"
    by (metis append_take_drop_id)
  obtain ps where ps: "split (drop 6 mt) 47 = takeWhile (\<lambda>c. c \<noteq> 47) (drop 6 mt) # ps"
    using split_shape by blast
  have "split (lit ''image/'' @ drop 6 mt) 47
          = lit ''image'' # takeWhile (\<lambda>c. c \<noteq> 47) (drop 6 mt) # ps"
    by (simp add: lit_def ps)
  with mt have "at_index (split mt 47) 1 = Some (takeWhile (\<lambda>c. c \<noteq> 47) (drop 6 mt))"
    by (simp add: at_index_def)
  then show ?thesis by (simp add: extension_of_def)
qed

subsection \<open>The calls of the refined handler\<close>

lemma check_candidates_extends: "\<exists>ext. snd (check_candidates w tr items) = tr @ ext"
proof -
  obtain sel tr' where cc: "check_candidates w tr items = (sel, tr')"
    by (cases "check_candidates w tr items") auto
  from check_candidates_spec [OF cc] show ?thesis
    by (auto simp: cc probes_def split: if_splits)
qed

lemma step2_trace_prefix:
  assumes wf: "isWellFormed q"
  shows "take (Suc (length tr1)) (snd (step2_google_search w tr1 c q)) = tr1 @ [GoogleSearch q]"
proof -
  let ?tr2 = "tr1 @ [GoogleSearch q]"
  have ext: "take (Suc (length tr1)) (?tr2 @ e) = ?tr2" for e
    by simp
  show ?thesis
  proof (cases "\<exists>sr items. w_google w ?tr2 = Resolves sr \<and> sr_ok sr
                  \<and> sr_json sr = Resolves (Some items) \<and> items \<noteq> []")
    case True
    then obtain sr items where sr: "w_google w ?tr2 = Resolves sr" "sr_ok sr"
      "sr_json sr = Resolves (Some items)" "items \<noteq> []" by blast
    obtain sel tr3 where cc: "check_candidates w ?tr2 items = (sel, tr3)"
      by (cases "check_candidates w ?tr2 items") auto
    with check_candidates_extends [of w ?tr2 items] obtain e where e: "tr3 = ?tr2 @ e"
      by auto
    have "snd (step2_google_search w tr1 c q) = tr3 \<or>
          snd (step2_google_search w tr1 c q) = tr3 @ [ImageFetch (imageUrl sel) True]"
      by (simp add: step2_candidates [OF sr cc wf] step3_trace)
    then show ?thesis
    proof
      assume "snd (step2_google_search w tr1 c q) = tr3"
      then show ?thesis using ext [of e] e by simp
    next
      assume "snd (step2_google_search w tr1 c q) = tr3 @ [ImageFetch (imageUrl sel) True]"
      then show ?thesis using ext [of "e @ [ImageFetch (imageUrl sel) True]"] e by simp
    qed
  next
    case False
    then have "snd (step2_google_search w tr1 c q) = ?tr2"
      unfolding step2_google_search_def Let_def using wf
      by (auto split: outcome.splits option.splits)
    then show ?thesis by simp
  qed
qed

lemma refined_snd:
  "snd (find_meme_refined w req) = snd (find_meme_refined_body w req)"
  by (simp add: find_meme_refined_def catch_all_def split: prod.splits sum.splits)

lemma refined_fst_Inr:
  "fst (find_meme_refined_body w req) = Inr rep \<Longrightarrow> fst (find_meme_refined w req) = rep"
  by (auto simp: find_meme_refined_def catch_all_def split: prod.splits sum.splits)

subsection \<open>Concrete runs\<close>

lemmas world_defs = giphy_world_def google_world_def offline_def search_ok_def image_ok_def
  cat_gif_def cat_request_def deploy_request_def deploy_completion_def silent_completion_def
  five_items_def third_only_def no_image_def

lemma lit_Nil_iff [simp]: "lit s = [] \<longleftrightarrow> s = []"
  by (simp add: lit_def)

lemma decimal_now: "decimal 1700000000000 = lit ''1700000000000''"
  by (simp add: decimal.simps lit_def)

lemma cat_png_run:
  "find_meme_simple png_cat_world cat_request
   = (json_reply
        \<lparr>env_ok = True, tokensUsed = 0,
         artifacts =
           [\<lparr>art_name = lit ''meme_1700000000000.gif'', art_type = lit ''image'',
             art_base64 = lit ''iVBORw=='', art_mimeType = lit ''image/png''\<rparr>],
         result = \<lparr>rd_url = lit ''https://media.giphy.com/cat.gif'', rd_title = lit ''Cat'',
                   rd_query = lit ''cat typing''\<rparr>\<rparr>,
      [GiphySearch (lit ''cat typing''),
       ImageFetch (lit ''https://media.giphy.com/cat.gif'') False])"
  by (simp add: find_meme_simple_def find_meme_simple_body_def catch_all_def world_defs
      png_cat_world_def decimal_now lit_def enc_char_def enc_code_def pad_def)

lemma cat_empty_run:
  "find_meme_simple empty_cat_world cat_request
   = (json_reply
        \<lparr>env_ok = True, tokensUsed = 0,
         artifacts =
           [\<lparr>art_name = lit ''meme_1700000000000.gif'', art_type = lit ''image'',
             art_base64 = [], art_mimeType = lit ''image/gif''\<rparr>],
         result = \<lparr>rd_url = lit ''https://media.giphy.com/cat.gif'', rd_title = lit ''Cat'',
                   rd_query = lit ''cat typing''\<rparr>\<rparr>,
      [GiphySearch (lit ''cat typing''),
       ImageFetch (lit ''https://media.giphy.com/cat.gif'') False])"
  by (simp add: find_meme_simple_def find_meme_simple_body_def catch_all_def world_defs
      empty_cat_world_def decimal_now lit_def)

lemma trim_deploy: "trim (lit '' deploy fail panic meme '') = lit ''deploy fail panic meme''"
  by (simp add: trim_def lit_def isWhiteSpace_def)

lemma trim_blank: "trim (lit ''  '') = []"
  by (simp add: trim_def lit_def isWhiteSpace_def)

lemma deploy_candidates:
  "check_candidates
     (google_world c (Some five_items) third_only img) tr five_items
   = (\<lparr>imageUrl = lit ''c'', imageTitle = lit ''C'', found = True,
       mimeType = lit ''image/png''\<rparr>,
      tr @ [HeadCheck (lit ''a''), HeadCheck (lit ''b''), HeadCheck (lit ''c'')])"
  by (simp add: world_defs lit_def startsWith_def)

lemma deploy_reaches_step3:
  "find_meme_refined_body
     (google_world deploy_completion (Some five_items) third_only img) deploy_request
   = step3_fetch_image (google_world deploy_completion (Some five_items) third_only img)
       [ChatCompletion (lit ''gpt-4o'') (lit ''when the deploy fails''),
        GoogleSearch (lit ''deploy fail panic meme''),
        HeadCheck (lit ''a''), HeadCheck (lit ''b''), HeadCheck (lit ''c'')]
       deploy_completion (lit ''deploy fail panic meme'')
       \<lparr>imageUrl = lit ''c'', imageTitle = lit ''C'', found = True,
        mimeType = lit ''image/png''\<rparr>"
proof -
  let ?w = "google_world deploy_completion (Some five_items) third_only img"
  let ?tr1 = "[ChatCompletion (lit ''gpt-4o'') (lit ''when the deploy fails'')]"
  let ?q = "lit ''deploy fail panic meme''"
  have "find_meme_refined_body ?w deploy_request
          = step2_google_search ?w ?tr1 deploy_completion ?q"
    unfolding find_meme_refined_body_def
    by (simp add: google_world_def offline_def deploy_request_def deploy_completion_def
        at_index_def trim_deploy)
  moreover have "w_google ?w (?tr1 @ [GoogleSearch ?q]) = Resolves (search_ok (Some five_items))"
    by (simp add: google_world_def offline_def)
  moreover have "sr_ok (search_ok (Some five_items) :: google_item search_response)"
    by (simp add: search_ok_def)
  moreover have "sr_json (search_ok (Some five_items)) = Resolves (Some five_items)"
    by (simp add: search_ok_def)
  moreover have "five_items \<noteq> []"
    by (simp add: five_items_def)
  moreover have "isWellFormed ?q"
    by (simp add: lit_def)
  moreover note deploy_candidates [of deploy_completion img "?tr1 @ [GoogleSearch ?q]"]
  ultimately show ?thesis
    using step2_candidates [of ?w ?tr1 ?q "search_ok (Some five_items)" five_items _ _
        deploy_completion]
    by simp
qed

lemma deploy_run:
  "find_meme_refined deploy_world deploy_request
   = (json_reply
        \<lparr>env_ok = True, tokensUsed = 57,
         artifacts =
           [\<lparr>art_name = lit ''meme_1700000000000.jpeg'', art_type = lit ''image'',
             art_base64 = lit ''AQID'', art_mimeType = lit ''image/jpeg''\<rparr>],
         result = \<lparr>rd_url = lit ''c'', rd_title = lit ''C'',
                   rd_query = lit ''deploy fail panic meme''\<rparr>\<rparr>,
      [ChatCompletion (lit ''gpt-4o'') (lit ''when the deploy fails''),
       GoogleSearch (lit ''deploy fail panic meme''),
       HeadCheck (lit ''a''), HeadCheck (lit ''b''), HeadCheck (lit ''c''),
       ImageFetch (lit ''c'') True])"
  unfolding find_meme_refined_def deploy_world_def deploy_reaches_step3 step3_fetch_image_def
  by (simp add: catch_all_def google_world_def offline_def image_ok_def deploy_completion_def
      decimal_now extension_of_def at_index_def lit_def startsWith_def enc_char_def enc_code_def
      pad_def)

lemma untyped_run:
  "find_meme_refined untyped_world deploy_request
     = (error_reply 500 (lit ''URL returned non-image content: application/octet-stream''),
        [ChatCompletion (lit ''gpt-4o'') (lit ''when the deploy fails''),
         GoogleSearch (lit ''deploy fail panic meme''),
         HeadCheck (lit ''a''), HeadCheck (lit ''b''), HeadCheck (lit ''c''),
         ImageFetch (lit ''c'') True])"
  unfolding find_meme_refined_def untyped_world_def deploy_reaches_step3 step3_fetch_image_def
  by (simp add: catch_all_def google_world_def offline_def image_ok_def octet_stream_not_image)
    (simp add: lit_def)

lemma extension_png: "extension_of (lit ''image/png'') = lit ''png''"
  by (simp add: extension_of_def at_index_def lit_def)

subsection \<open>Success of the refined handler\<close>

lemma refined_success:
  assumes "find_meme_refined w req = (rep, tr)" and "status rep = 200"
  shows "\<exists>t c ch chs (sel :: selection) ir mt buf.
           text_field req = Some t \<and> t \<noteq> []
         \<and> take 1 tr = [ChatCompletion (requested_model req) t]
         \<and> w_completion w (take 1 tr) = Resolves c
         \<and> choices c = ch # chs
         \<and> last tr = ImageFetch (imageUrl sel) True
         \<and> w_get w tr = Resolves ir \<and> ir_ok ir
         \<and> ir_content_type ir = Some mt \<and> startsWith mt (lit ''image/'')
         \<and> ir_arrayBuffer ir = Resolves buf
         \<and> rep = json_reply
              \<lparr>env_ok = True,
               tokensUsed = (case usage c of None \<Rightarrow> 0 | Some u \<Rightarrow> total_tokens u),
               artifacts =
                 [\<lparr>art_name = lit ''meme_'' @ decimal (w_now w tr) @ lit ''.'' @ extension_of mt,
                   art_type = lit ''image'', art_base64 = base64 buf, art_mimeType = mt\<rparr>],
               result = \<lparr>rd_url = imageUrl sel, rd_title = imageTitle sel,
                          rd_query = or_default (map_option trim (content ch)) t\<rparr>\<rparr>"
proof -
  from assms have body: "find_meme_refined_body w req = (Inr rep, tr)"
    unfolding find_meme_refined_def by (rule catch_all_200)
  from refined_body_success [OF body assms(2)] obtain t c ch chs where
    a: "text_field req = Some t" "t \<noteq> []"
      "w_completion w [ChatCompletion (requested_model req) t] = Resolves c"
      "choices c = ch # chs"
    and s2: "step2_google_search w [ChatCompletion (requested_model req) t] c
              (or_default (map_option trim (content ch)) t) = (Inr rep, tr)"
    by blast
  from step2_success [OF s2 assms(2)] obtain sel tr3 where
    wf: "isWellFormed (or_default (map_option trim (content ch)) t)"
    and s3: "step3_fetch_image w tr3 c (or_default (map_option trim (content ch)) t) sel
               = (Inr rep, tr)"
    by blast
  from step3_success [OF s3] obtain ir mt buf where
    c: "tr = tr3 @ [ImageFetch (imageUrl sel) True]" "w_get w tr = Resolves ir" "ir_ok ir"
      "ir_content_type ir = Some mt" "startsWith mt (lit ''image/'')"
      "ir_arrayBuffer ir = Resolves buf"
      "rep = json_reply
              \<lparr>env_ok = True,
               tokensUsed = (case usage c of None \<Rightarrow> 0 | Some u \<Rightarrow> total_tokens u),
               artifacts =
                 [\<lparr>art_name = lit ''meme_'' @ decimal (w_now w tr) @ lit ''.'' @ extension_of mt,
                   art_type = lit ''image'', art_base64 = base64 buf, art_mimeType = mt\<rparr>],
               result = \<lparr>rd_url = imageUrl sel, rd_title = imageTitle sel,
                  rd_query = or_default (map_option trim (content ch)) t\<rparr>\<rparr>"
    by blast
  have "take (Suc (length [ChatCompletion (requested_model req) t])) tr
          = [ChatCompletion (requested_model req) t]
            @ [GoogleSearch (or_default (map_option trim (content ch)) t)]"
    using step2_trace_prefix [OF wf, of "[ChatCompletion (requested_model req) t]" w c] s2
    by simp
  then have "take 2 tr = [ChatCompletion (requested_model req) t,
               GoogleSearch (or_default (map_option trim (content ch)) t)]"
    by (simp add: numeral_2_eq_2)
  then have "take 1 (take 2 tr) = [ChatCompletion (requested_model req) t]"
    by simp
  then have first: "take 1 tr = [ChatCompletion (requested_model req) t]"
    by simp
  have last: "last tr = ImageFetch (imageUrl sel) True"
    using c(1) by simp
  have comp: "w_completion w (take 1 tr) = Resolves c"
    using a(3) first by simp
  show ?thesis
    by (intro exI conjI) (rule a(1) a(2) first comp a(4) last c(2-7))+
qed

section \<open>Claims\<close>

text \<open>
  C1. The claim fails: the simple variant names the artifact \<open>.gif\<close> whatever the
  content type of the image is, and in the refined variant an image response without a
  content type gives a 500, not an artifact with a default extension.
\<close>

theorem C1_extension_counterexample:
  "find_meme_simple png_cat_world cat_request
     = (json_reply
          \<lparr>env_ok = True, tokensUsed = 0,
           artifacts =
             [\<lparr>art_name = lit ''meme_1700000000000.gif'', art_type = lit ''image'',
               art_base64 = lit ''iVBORw=='', art_mimeType = lit ''image/png''\<rparr>],
           result = \<lparr>rd_url = lit ''https://media.giphy.com/cat.gif'', rd_title = lit ''Cat'',
                     rd_query = lit ''cat typing''\<rparr>\<rparr>,
        [GiphySearch (lit ''cat typing''),
         ImageFetch (lit ''https://media.giphy.com/cat.gif'') False])
 \<and> extension_of (lit ''image/png'') = lit ''png''
 \<and> w_get untyped_world (snd (find_meme_refined untyped_world deploy_request))
     = Resolves (image_ok None [1, 2, 3])
 \<and> fst (find_meme_refined untyped_world deploy_request)
     = error_reply 500 (lit ''URL returned non-image content: application/octet-stream'')"
  by (simp add: cat_png_run extension_png untyped_run)
    (simp add: untyped_world_def google_world_def offline_def)

text \<open>
  C1, amended. On a successful response the artifact is named \<open>meme_\<close>, the decimal
  \<open>Date.now()\<close>, a dot and an extension. In the simple variant the extension is always
  \<open>gif\<close>. In the refined variant it is a function of the content type of the final
  image response, which is present and begins with \<open>image/\<close>: the text after
  \<open>image/\<close> up to the next \<open>/\<close> (47), or \<open>img\<close> when that text is empty.
\<close>

theorem C1_artifact_extension:
  "(find_meme_simple w sreq = (rep, tr) \<and> status rep = 200 \<longrightarrow>
      map art_name (reply_artifacts rep)
        = [lit ''meme_'' @ decimal (w_now w tr) @ lit ''.gif''])
 \<and> (find_meme_refined w' rreq = (rep', tr') \<and> status rep' = 200 \<longrightarrow>
      (\<exists>ir mt. w_get w' tr' = Resolves ir \<and> ir_content_type ir = Some mt
         \<and> startsWith mt (lit ''image/'')
         \<and> map art_name (reply_artifacts rep')
            = [lit ''meme_'' @ decimal (w_now w' tr') @ lit ''.''
               @ (if takeWhile (\<lambda>c. c \<noteq> 47) (drop 6 mt) = [] then lit ''img''
                  else takeWhile (\<lambda>c. c \<noteq> 47) (drop 6 mt))]))"
proof (intro conjI impI)
  assume "find_meme_simple w sreq = (rep, tr) \<and> status rep = 200"
  then have "find_meme_simple w sreq = (rep, tr)" "status rep = 200" by simp_all
  from simple_success [OF this]
  show "map art_name (reply_artifacts rep) = [lit ''meme_'' @ decimal (w_now w tr) @ lit ''.gif'']"
    by (elim exE conjE) (simp add: json_reply_def reply_artifacts_def)
next
  assume "find_meme_refined w' rreq = (rep', tr') \<and> status rep' = 200"
  then have run: "find_meme_refined w' rreq = (rep', tr')" "status rep' = 200" by simp_all
  from refined_success [OF run]
  show "\<exists>ir mt. w_get w' tr' = Resolves ir \<and> ir_content_type ir = Some mt
         \<and> startsWith mt (lit ''image/'')
         \<and> map art_name (reply_artifacts rep')
            = [lit ''meme_'' @ decimal (w_now w' tr') @ lit ''.''
               @ (if takeWhile (\<lambda>c. c \<noteq> 47) (drop 6 mt) = [] then lit ''img''
                  else takeWhile (\<lambda>c. c \<noteq> 47) (drop 6 mt))]"
    by (elim exE conjE) (simp add: json_reply_def reply_artifacts_def extension_of_image)
qed


theorem C1_artifact_extension_witness:
  "status (fst (find_meme_simple png_cat_world cat_request)) = 200
 \<and> map art_name (reply_artifacts (fst (find_meme_simple png_cat_world cat_request)))
     = [lit ''meme_1700000000000.gif'']
 \<and> status (fst (find_meme_refined deploy_world deploy_request)) = 200
 \<and> w_get deploy_world (snd (find_meme_refined deploy_world deploy_request))
     = Resolves (image_ok (Some (lit ''image/jpeg'')) [1, 2, 3])
 \<and> map art_name (reply_artifacts (fst (find_meme_refined deploy_world deploy_request)))
     = [lit ''meme_1700000000000.jpeg'']"
proof -
  obtain rep tr where s: "find_meme_simple png_cat_world cat_request = (rep, tr)"
    by (cases "find_meme_simple png_cat_world cat_request") auto
  obtain rep' tr' where r: "find_meme_refined deploy_world deploy_request = (rep', tr')"
    by (cases "find_meme_refined deploy_world deploy_request") auto
  have st: "status rep = 200" "status rep' = 200"
    using s r by (auto simp: cat_png_run deploy_run json_reply_def)
  have now: "w_now png_cat_world tr = 1700000000000" "w_now deploy_world tr' = 1700000000000"
    by (simp_all add: png_cat_world_def giphy_world_def deploy_world_def google_world_def
        offline_def)
  have g: "w_get deploy_world tr' = Resolves (image_ok (Some (lit ''image/jpeg'')) [1, 2, 3])"
    by (simp add: deploy_world_def google_world_def offline_def)
  have jpeg: "takeWhile (\<lambda>c. c \<noteq> 47) (drop 6 (lit ''image/jpeg'')) = lit ''jpeg''"
    by (simp add: lit_def)
  have names: "lit ''meme_'' @ decimal 1700000000000 @ lit ''.gif'' = lit ''meme_1700000000000.gif''"
    "lit ''meme_'' @ decimal 1700000000000 @ lit ''.'' @ lit ''jpeg''
       = lit ''meme_1700000000000.jpeg''"
    by (simp_all add: decimal_now lit_def)
  note inst = C1_artifact_extension
    [of png_cat_world cat_request rep tr deploy_world deploy_request rep' tr']
  from inst s st(1)
  have "map art_name (reply_artifacts rep)
          = [lit ''meme_'' @ decimal (w_now png_cat_world tr) @ lit ''.gif'']"
    by simp
  then have simple: "map art_name (reply_artifacts rep) = [lit ''meme_1700000000000.gif'']"
    by (simp add: now names)
  from inst r st(2)
  have "\<exists>ir mt. w_get deploy_world tr' = Resolves ir \<and> ir_content_type ir = Some mt
         \<and> startsWith mt (lit ''image/'')
         \<and> map art_name (reply_artifacts rep')
            = [lit ''meme_'' @ decimal (w_now deploy_world tr') @ lit ''.''
               @ (if takeWhile (\<lambda>c. c \<noteq> 47) (drop 6 mt) = [] then lit ''img''
                  else takeWhile (\<lambda>c. c \<noteq> 47) (drop 6 mt))]"
    by simp
  then have "map art_name (reply_artifacts rep') = [lit ''meme_1700000000000.jpeg'']"
    using g by (elim exE conjE) (auto simp: now names image_ok_def jpeg)
  with simple have "map art_name (reply_artifacts rep) = [lit ''meme_1700000000000.gif'']"
    and "map art_name (reply_artifacts rep') = [lit ''meme_1700000000000.jpeg'']"
    by simp_all
  with s r st g show ?thesis by simp
qed

text \<open>
  C2. The claim fails for an empty image body: the reply is a 200 whose single artifact
  has the empty string as \<open>base64\<close>, which decodes to no bytes.
\<close>

theorem C2_empty_body_counterexample:
  "w_get empty_cat_world
     [GiphySearch (lit ''cat typing''), ImageFetch (lit ''https://media.giphy.com/cat.gif'') False]
     = Resolves (image_ok None [])
 \<and> find_meme_simple empty_cat_world cat_request
     = (\<lparr>status = 200,
         body = Envelope
           \<lparr>env_ok = True, tokensUsed = 0,
            artifacts =
              [\<lparr>art_name = lit ''meme_1700000000000.gif'', art_type = lit ''image'',
                art_base64 = [], art_mimeType = lit ''image/gif''\<rparr>],
            result = \<lparr>rd_url = lit ''https://media.giphy.com/cat.gif'', rd_title = lit ''Cat'',
                      rd_query = lit ''cat typing''\<rparr>\<rparr>\<rparr>,
        [GiphySearch (lit ''cat typing''),
         ImageFetch (lit ''https://media.giphy.com/cat.gif'') False])
 \<and> base64_decode [] = Some []"
  by (simp add: cat_empty_run json_reply_def)
    (simp add: empty_cat_world_def giphy_world_def offline_def)

text \<open>
  C2, amended. Whenever a handler returns a 200, the reply has exactly one artifact, and
  its \<open>base64\<close> field decodes to exactly the bytes of the body of the answer to the
  last call, the GET of the image: a non-empty sequence exactly when that body is not
  empty.
\<close>

theorem C2_one_artifact_decoding_to_body:
  "(find_meme_simple w sreq = (rep, tr) \<and> status rep = 200 \<longrightarrow>
      (\<exists>ir buf. w_get w tr = Resolves ir \<and> ir_arrayBuffer ir = Resolves buf
         \<and> length (reply_artifacts rep) = 1
         \<and> map (\<lambda>a. base64_decode (art_base64 a)) (reply_artifacts rep) = [Some buf]))
 \<and> (find_meme_refined w' rreq = (rep', tr') \<and> status rep' = 200 \<longrightarrow>
      (\<exists>ir buf. w_get w' tr' = Resolves ir \<and> ir_arrayBuffer ir = Resolves buf
         \<and> length (reply_artifacts rep') = 1
         \<and> map (\<lambda>a. base64_decode (art_base64 a)) (reply_artifacts rep') = [Some buf]))"
proof (intro conjI impI)
  assume "find_meme_simple w sreq = (rep, tr) \<and> status rep = 200"
  then have "find_meme_simple w sreq = (rep, tr)" "status rep = 200" by simp_all
  from simple_success [OF this]
  show "\<exists>ir buf. w_get w tr = Resolves ir \<and> ir_arrayBuffer ir = Resolves buf
         \<and> length (reply_artifacts rep) = 1
         \<and> map (\<lambda>a. base64_decode (art_base64 a)) (reply_artifacts rep) = [Some buf]"
    by (elim exE conjE) (simp add: json_reply_def reply_artifacts_def base64_roundtrip)
next
  assume "find_meme_refined w' rreq = (rep', tr') \<and> status rep' = 200"
  then have run: "find_meme_refined w' rreq = (rep', tr')" "status rep' = 200" by simp_all
  from refined_success [OF run]
  show "\<exists>ir buf. w_get w' tr' = Resolves ir \<and> ir_arrayBuffer ir = Resolves buf
         \<and> length (reply_artifacts rep') = 1
         \<and> map (\<lambda>a. base64_decode (art_base64 a)) (reply_artifacts rep') = [Some buf]"
    by (elim exE conjE) (simp add: json_reply_def reply_artifacts_def base64_roundtrip)
qed

theorem C2_one_artifact_witness:
  "status (fst (find_meme_simple png_cat_world cat_request)) = 200
 \<and> map (\<lambda>a. base64_decode (art_base64 a))
       (reply_artifacts (fst (find_meme_simple png_cat_world cat_request)))
     = [Some [137, 80, 78, 71]]
 \<and> status (fst (find_meme_refined deploy_world deploy_request)) = 200
 \<and> map (\<lambda>a. base64_decode (art_base64 a))
       (reply_artifacts (fst (find_meme_refined deploy_world deploy_request)))
     = [Some [1, 2, 3]]"
proof -
  obtain rep tr where s: "find_meme_simple png_cat_world cat_request = (rep, tr)"
    by (cases "find_meme_simple png_cat_world cat_request") auto
  obtain rep' tr' where r: "find_meme_refined deploy_world deploy_request = (rep', tr')"
    by (cases "find_meme_refined deploy_world deploy_request") auto
  have st: "status rep = 200" "status rep' = 200"
    using s r by (auto simp: cat_png_run deploy_run json_reply_def)
  have g: "w_get png_cat_world tr = Resolves (image_ok (Some (lit ''image/png'')) [137, 80, 78, 71])"
    "w_get deploy_world tr' = Resolves (image_ok (Some (lit ''image/jpeg'')) [1, 2, 3])"
    by (simp_all add: png_cat_world_def giphy_world_def deploy_world_def google_world_def
        offline_def)
  from C2_one_artifact_decoding_to_body
    [of png_cat_world cat_request rep tr deploy_world deploy_request rep' tr'] s r st g
  have "map (\<lambda>a. base64_decode (art_base64 a)) (reply_artifacts rep) = [Some [137, 80, 78, 71]]"
    and "map (\<lambda>a. base64_decode (art_base64 a)) (reply_artifacts rep') = [Some [1, 2, 3]]"
    by (auto simp: image_ok_def)
  with s r st show ?thesis by simp
qed

text \<open>
  C3. A request whose description (simple variant) or text (refined variant) is missing
  or the empty string is answered with status 400 and an error body, and no outbound
  call has been made: the list of calls is empty.
\<close>

theorem C3_missing_input_400_no_calls:
  "(description_of sreq = None \<or> description_of sreq = Some [] \<longrightarrow>
      status (fst (find_meme_simple w sreq)) = 400
    \<and> is_error (fst (find_meme_simple w sreq))
    \<and> snd (find_meme_simple w sreq) = [])
 \<and> (text_field rreq = None \<or> text_field rreq = Some [] \<longrightarrow>
      status (fst (find_meme_refined w rreq)) = 400
    \<and> is_error (fst (find_meme_refined w rreq))
    \<and> snd (find_meme_refined w rreq) = [])"
  by (auto simp: simple_missing refined_missing error_reply_def is_error_def)

theorem C3_missing_input_witness:
  "description_of \<lparr>args = Some \<lparr>description = Some []\<rparr>\<rparr> = Some []
 \<and> find_meme_simple offline \<lparr>args = Some \<lparr>description = Some []\<rparr>\<rparr>
     = (\<lparr>status = 400, body = ErrorBody (lit ''Missing description parameter'')\<rparr>, [])
 \<and> text_field \<lparr>text_field = None, model = Some (lit ''gpt-4o-mini'')\<rparr> = None
 \<and> status (fst (find_meme_refined offline
       \<lparr>text_field = None, model = Some (lit ''gpt-4o-mini'')\<rparr>)) = 400
 \<and> snd (find_meme_refined offline
       \<lparr>text_field = None, model = Some (lit ''gpt-4o-mini'')\<rparr>) = []"
  using C3_missing_input_400_no_calls
    [of "\<lparr>args = Some \<lparr>description = Some []\<rparr>\<rparr>" offline
        "\<lparr>text_field = None, model = Some (lit ''gpt-4o-mini'')\<rparr>"]
  by (simp add: description_of_def simple_missing error_reply_def)

text \<open>
  C4. In the refined variant, once the search (made for a well-formed query) has
  answered with its items, the calls that follow are the HEAD checks of the candidates
  in the order of the list, one each. Either some candidate \<open>k\<close> is the first whose HEAD check is accepted: then
  exactly the candidates up to \<open>k\<close> are probed, and the only later call is the GET of
  candidate \<open>k\<close>. Or no HEAD check is accepted: then every candidate is probed once
  and nothing else is called. The answer to the probe of candidate \<open>i\<close> is
  \<open>w_head w (probes tr2 items (Suc i))\<close>.
\<close>

theorem C4_candidates_in_order_first_accepted:
  assumes "text_field req = Some t" and "t \<noteq> []"
    and "w_completion w [ChatCompletion (requested_model req) t] = Resolves c"
    and "choices c = ch # chs"
    and "tr2 = [ChatCompletion (requested_model req) t,
                GoogleSearch (or_default (map_option trim (content ch)) t)]"
    and "w_google w tr2 = Resolves sr" and "sr_ok sr"
    and "sr_json sr = Resolves (Some items)"
    and wf: "isWellFormed (or_default (map_option trim (content ch)) t)"
  shows "(\<exists>k<length items.
            accepted (w_head w (probes tr2 items (Suc k)))
          \<and> (\<forall>i<k. \<not> accepted (w_head w (probes tr2 items (Suc i))))
          \<and> snd (find_meme_refined w req)
              = probes tr2 items (Suc k) @ [ImageFetch (link (items ! k)) True])
       \<or> ((\<forall>i<length items. \<not> accepted (w_head w (probes tr2 items (Suc i))))
          \<and> snd (find_meme_refined w req) = probes tr2 items (length items))"
proof -
  let ?tr1 = "[ChatCompletion (requested_model req) t]"
  let ?q = "or_default (map_option trim (content ch)) t"
  have tr2: "tr2 = ?tr1 @ [GoogleSearch ?q]"
    using assms(5) by simp
  have snd_eq: "snd (find_meme_refined w req) = snd (step2_google_search w ?tr1 c ?q)"
    unfolding refined_snd refined_reaches_step2 [OF assms(1-4)] ..
  note g = assms(6-8) [unfolded tr2]
  show ?thesis
  proof (cases "items = []")
    case True
    with g have "sr_json sr = Resolves None \<or> sr_json sr = Resolves (Some [])"
      by simp
    from step2_no_items [OF g(1,2) this wf, of c]
    have "snd (find_meme_refined w req) = tr2"
      by (simp add: snd_eq tr2)
    with True show ?thesis
      by (simp add: probes_def)
  next
    case False
    obtain sel tr3 where cc: "check_candidates w (?tr1 @ [GoogleSearch ?q]) items = (sel, tr3)"
      by (cases "check_candidates w (?tr1 @ [GoogleSearch ?q]) items") auto
    note s2 = step2_candidates [OF g False cc wf, of c]
    note spec = check_candidates_spec [OF cc, folded tr2]
    show ?thesis
    proof (cases "found sel")
      case True
      with spec obtain k where k: "k < length items"
        "accepted (w_head w (probes tr2 items (Suc k)))"
        "\<forall>i<k. \<not> accepted (w_head w (probes tr2 items (Suc i)))"
        "tr3 = probes tr2 items (Suc k)" "imageUrl sel = link (items ! k)"
        by auto
      from True s2 have "snd (find_meme_refined w req) = tr3 @ [ImageFetch (imageUrl sel) True]"
        by (simp add: snd_eq step3_trace)
      with k have "snd (find_meme_refined w req)
              = probes tr2 items (Suc k) @ [ImageFetch (link (items ! k)) True]"
        by simp
      with k(1-3) show ?thesis by blast
    next
      case nf: False
      with spec have none: "\<forall>i<length items. \<not> accepted (w_head w (probes tr2 items (Suc i)))"
        and tr3: "tr3 = probes tr2 items (length items)"
        by auto
      from nf s2 have "snd (find_meme_refined w req) = tr3"
        by (simp add: snd_eq)
      with none tr3 show ?thesis by simp
    qed
  qed
qed


theorem C4_candidates_witness:
  "\<not> accepted (third_only (lit ''a'')) \<and> \<not> accepted (third_only (lit ''b''))
 \<and> accepted (third_only (lit ''c''))
 \<and> snd (find_meme_refined deploy_world deploy_request)
     = [ChatCompletion (lit ''gpt-4o'') (lit ''when the deploy fails''),
        GoogleSearch (lit ''deploy fail panic meme''),
        HeadCheck (lit ''a''), HeadCheck (lit ''b''), HeadCheck (lit ''c''),
        ImageFetch (lit ''c'') True]
 \<and> ((\<exists>k<length five_items.
         accepted (w_head deploy_world
           (probes [ChatCompletion (lit ''gpt-4o'') (lit ''when the deploy fails''),
                    GoogleSearch (lit ''deploy fail panic meme'')] five_items (Suc k)))
       \<and> (\<forall>i<k. \<not> accepted (w_head deploy_world
           (probes [ChatCompletion (lit ''gpt-4o'') (lit ''when the deploy fails''),
                    GoogleSearch (lit ''deploy fail panic meme'')] five_items (Suc i))))
       \<and> snd (find_meme_refined deploy_world deploy_request)
           = probes [ChatCompletion (lit ''gpt-4o'') (lit ''when the deploy fails''),
                     GoogleSearch (lit ''deploy fail panic meme'')] five_items (Suc k)
             @ [ImageFetch (link (five_items ! k)) True])
    \<or> ((\<forall>i<length five_items. \<not> accepted (w_head deploy_world
           (probes [ChatCompletion (lit ''gpt-4o'') (lit ''when the deploy fails''),
                    GoogleSearch (lit ''deploy fail panic meme'')] five_items (Suc i))))
       \<and> snd (find_meme_refined deploy_world deploy_request)
           = probes [ChatCompletion (lit ''gpt-4o'') (lit ''when the deploy fails''),
                     GoogleSearch (lit ''deploy fail panic meme'')] five_items
               (length five_items)))"
proof -
  have t: "text_field deploy_request = Some (lit ''when the deploy fails'')"
    "lit ''when the deploy fails'' \<noteq> []"
    by (simp_all add: deploy_request_def)
  have m: "requested_model deploy_request = lit ''gpt-4o''"
    by (simp add: deploy_request_def requested_model_def)
  have c: "w_completion deploy_world
             [ChatCompletion (requested_model deploy_request) (lit ''when the deploy fails'')]
             = Resolves deploy_completion"
    "choices deploy_completion = [\<lparr>content = Some (lit '' deploy fail panic meme '')\<rparr>]"
    by (simp_all add: deploy_world_def google_world_def offline_def deploy_completion_def)
  have tr2: "[ChatCompletion (lit ''gpt-4o'') (lit ''when the deploy fails''),
              GoogleSearch (lit ''deploy fail panic meme'')]
           = [ChatCompletion (requested_model deploy_request) (lit ''when the deploy fails''),
              GoogleSearch (or_default
                (map_option trim (content \<lparr>content = Some (lit '' deploy fail panic meme '')\<rparr>))
                (lit ''when the deploy fails''))]"
    by (simp add: m trim_deploy)
  have g: "w_google deploy_world
             [ChatCompletion (lit ''gpt-4o'') (lit ''when the deploy fails''),
              GoogleSearch (lit ''deploy fail panic meme'')]
             = Resolves (search_ok (Some five_items))"
    "sr_ok (search_ok (Some five_items) :: google_item search_response)"
    "sr_json (search_ok (Some five_items)) = Resolves (Some five_items)"
    by (simp_all add: deploy_world_def google_world_def offline_def search_ok_def)
  have h: "\<not> accepted (third_only (lit ''a''))" "\<not> accepted (third_only (lit ''b''))"
    "accepted (third_only (lit ''c''))"
    by (simp_all add: accepted_def third_only_def lit_def startsWith_def)
  have run: "snd (find_meme_refined deploy_world deploy_request)
     = [ChatCompletion (lit ''gpt-4o'') (lit ''when the deploy fails''),
        GoogleSearch (lit ''deploy fail panic meme''),
        HeadCheck (lit ''a''), HeadCheck (lit ''b''), HeadCheck (lit ''c''),
        ImageFetch (lit ''c'') True]"
    by (simp add: deploy_run)
  have wf: "isWellFormed (or_default
      (map_option trim (content \<lparr>content = Some (lit '' deploy fail panic meme '')\<rparr>))
      (lit ''when the deploy fails''))"
    by (simp add: trim_deploy) (simp add: lit_def)
  note C4_candidates_in_order_first_accepted [OF t c tr2 g wf]
  with h run show ?thesis by blast
qed

text \<open>
  C5. In the refined variant, when the search (made for a well-formed query) has
  answered with its items and no candidate's HEAD check is accepted, the reply has status 404 and an error body, and
  the calls made are the completion, the search and the HEAD checks: the image is
  never fetched.
\<close>

theorem C5_no_accepted_candidate_404:
  assumes "text_field req = Some t" and "t \<noteq> []"
    and "w_completion w [ChatCompletion (requested_model req) t] = Resolves c"
    and "choices c = ch # chs"
    and "tr2 = [ChatCompletion (requested_model req) t,
                GoogleSearch (or_default (map_option trim (content ch)) t)]"
    and "w_google w tr2 = Resolves sr" and "sr_ok sr"
    and "sr_json sr = Resolves (Some items)"
    and wf: "isWellFormed (or_default (map_option trim (content ch)) t)"
    and none: "\<forall>i<length items. \<not> accepted (w_head w (probes tr2 items (Suc i)))"
  shows "status (fst (find_meme_refined w req)) = 404
       \<and> is_error (fst (find_meme_refined w req))
       \<and> snd (find_meme_refined w req) = probes tr2 items (length items)
       \<and> filter is_image_fetch (snd (find_meme_refined w req)) = []"
proof -
  let ?tr1 = "[ChatCompletion (requested_model req) t]"
  let ?q = "or_default (map_option trim (content ch)) t"
  have tr2: "tr2 = ?tr1 @ [GoogleSearch ?q]"
    using assms(5) by simp
  note body = refined_reaches_step2 [OF assms(1-4)]
  note g = assms(6-8) [unfolded tr2]
  have "\<exists>msg. find_meme_refined_body w req
          = (Inr (error_reply 404 msg), probes tr2 items (length items))"
  proof (cases "items = []")
    case True
    with g have "sr_json sr = Resolves None \<or> sr_json sr = Resolves (Some [])"
      by simp
    from step2_no_items [OF g(1,2) this wf, of c] True show ?thesis
      by (auto simp: body tr2 probes_def)
  next
    case False
    obtain sel tr3 where cc: "check_candidates w (?tr1 @ [GoogleSearch ?q]) items = (sel, tr3)"
      by (cases "check_candidates w (?tr1 @ [GoogleSearch ?q]) items") auto
    note spec = check_candidates_spec [OF cc, folded tr2]
    have nf: "\<not> found sel"
    proof
      assume "found sel"
      with spec obtain k where "k < length items"
        "accepted (w_head w (probes tr2 items (Suc k)))"
        by auto
      with none show False by blast
    qed
    with spec have "tr3 = probes tr2 items (length items)"
      by simp
    with step2_candidates [OF g False cc wf, of c] nf show ?thesis
      by (auto simp: body)
  qed
  then obtain msg where run: "find_meme_refined_body w req
          = (Inr (error_reply 404 msg), probes tr2 items (length items))"
    by blast
  then have "fst (find_meme_refined w req) = error_reply 404 msg"
    by (intro refined_fst_Inr) simp
  moreover from run have "snd (find_meme_refined w req) = probes tr2 items (length items)"
    by (simp add: refined_snd)
  moreover have "filter is_image_fetch (probes tr2 items (length items)) = []"
    by (simp add: probes_def assms(5) filter_empty_conv)
  ultimately show ?thesis
    by (simp add: error_reply_def is_error_def)
qed

theorem C5_no_accepted_candidate_witness:
  "(\<forall>u. \<not> accepted (no_image u))
 \<and> status (fst (find_meme_refined no_image_world deploy_request)) = 404
 \<and> is_error (fst (find_meme_refined no_image_world deploy_request))
 \<and> snd (find_meme_refined no_image_world deploy_request)
     = [ChatCompletion (lit ''gpt-4o'') (lit ''when the deploy fails''),
        GoogleSearch (lit ''deploy fail panic meme''),
        HeadCheck (lit ''a''), HeadCheck (lit ''b''), HeadCheck (lit ''c''),
        HeadCheck (lit ''d''), HeadCheck (lit ''e'')]"
proof -
  have t: "text_field deploy_request = Some (lit ''when the deploy fails'')"
    "lit ''when the deploy fails'' \<noteq> []"
    by (simp_all add: deploy_request_def)
  have m: "requested_model deploy_request = lit ''gpt-4o''"
    by (simp add: deploy_request_def requested_model_def)
  have c: "w_completion no_image_world
             [ChatCompletion (requested_model deploy_request) (lit ''when the deploy fails'')]
             = Resolves deploy_completion"
    "choices deploy_completion = [\<lparr>content = Some (lit '' deploy fail panic meme '')\<rparr>]"
    by (simp_all add: no_image_world_def google_world_def offline_def deploy_completion_def)
  have tr2: "[ChatCompletion (lit ''gpt-4o'') (lit ''when the deploy fails''),
              GoogleSearch (lit ''deploy fail panic meme'')]
           = [ChatCompletion (requested_model deploy_request) (lit ''when the deploy fails''),
              GoogleSearch (or_default
                (map_option trim (content \<lparr>content = Some (lit '' deploy fail panic meme '')\<rparr>))
                (lit ''when the deploy fails''))]"
    by (simp add: m trim_deploy)
  have g: "w_google no_image_world
             [ChatCompletion (lit ''gpt-4o'') (lit ''when the deploy fails''),
              GoogleSearch (lit ''deploy fail panic meme'')]
             = Resolves (search_ok (Some five_items))"
    "sr_ok (search_ok (Some five_items) :: google_item search_response)"
    "sr_json (search_ok (Some five_items)) = Resolves (Some five_items)"
    by (simp_all add: no_image_world_def google_world_def offline_def search_ok_def)
  have n: "\<not> accepted (no_image u)" for u
    by (simp add: accepted_def no_image_def lit_def startsWith_def)
  have hd: "w_head no_image_world (probes tr five_items (Suc i))
              = no_image (link (five_items ! i))" if "i < length five_items" for tr i
    using that
    by (simp add: no_image_world_def google_world_def offline_def probes_def take_Suc_conv_app_nth)
  have none: "\<forall>i<length five_items. \<not> accepted (w_head no_image_world
           (probes [ChatCompletion (lit ''gpt-4o'') (lit ''when the deploy fails''),
                    GoogleSearch (lit ''deploy fail panic meme'')] five_items (Suc i)))"
    by (simp add: hd n)
  have p: "probes [ChatCompletion (lit ''gpt-4o'') (lit ''when the deploy fails''),
                    GoogleSearch (lit ''deploy fail panic meme'')] five_items
             (length five_items)
     = [ChatCompletion (lit ''gpt-4o'') (lit ''when the deploy fails''),
        GoogleSearch (lit ''deploy fail panic meme''),
        HeadCheck (lit ''a''), HeadCheck (lit ''b''), HeadCheck (lit ''c''),
        HeadCheck (lit ''d''), HeadCheck (lit ''e'')]"
    by (simp add: probes_def five_items_def)
  have wf: "isWellFormed (or_default
      (map_option trim (content \<lparr>content = Some (lit '' deploy fail panic meme '')\<rparr>))
      (lit ''when the deploy fails''))"
    by (simp add: trim_deploy) (simp add: lit_def)
  note C5_no_accepted_candidate_404 [OF t c tr2 g wf none]
  with n p show ?thesis by simp
qed

text \<open>
  C6. On a successful response \<open>tokensUsed\<close> is 0 in the simple variant; in the refined
  variant it is the \<open>total_tokens\<close> of the usage the completion call reported, and 0
  when the completion carries no usage. The completion is the answer to the first
  outbound call.
\<close>

theorem C6_tokens_used:
  "(find_meme_simple w sreq = (rep, tr) \<and> status rep = 200 \<longrightarrow>
      (\<exists>e. body rep = Envelope e \<and> tokensUsed e = 0))
 \<and> (find_meme_refined w' rreq = (rep', tr') \<and> status rep' = 200 \<longrightarrow>
      (\<exists>c e. w_completion w' (take 1 tr') = Resolves c \<and> body rep' = Envelope e
           \<and> tokensUsed e = (case usage c of None \<Rightarrow> 0 | Some u \<Rightarrow> total_tokens u)))"
proof (intro conjI impI)
  assume "find_meme_simple w sreq = (rep, tr) \<and> status rep = 200"
  then have "find_meme_simple w sreq = (rep, tr)" "status rep = 200" by simp_all
  from simple_success [OF this] show "\<exists>e. body rep = Envelope e \<and> tokensUsed e = 0"
    by (auto simp: json_reply_def)
next
  assume "find_meme_refined w' rreq = (rep', tr') \<and> status rep' = 200"
  then have run: "find_meme_refined w' rreq = (rep', tr')" "status rep' = 200" by simp_all
  from refined_success [OF run]
  show "\<exists>c e. w_completion w' (take 1 tr') = Resolves c \<and> body rep' = Envelope e
           \<and> tokensUsed e = (case usage c of None \<Rightarrow> 0 | Some u \<Rightarrow> total_tokens u)"
    by (elim exE conjE) (auto simp: json_reply_def)
qed


theorem C6_tokens_used_witness:
  "status (fst (find_meme_simple png_cat_world cat_request)) = 200
 \<and> (\<exists>e. body (fst (find_meme_simple png_cat_world cat_request)) = Envelope e
        \<and> tokensUsed e = 0)
 \<and> status (fst (find_meme_refined deploy_world deploy_request)) = 200
 \<and> usage deploy_completion = Some \<lparr>total_tokens = 57\<rparr>
 \<and> (\<exists>e. body (fst (find_meme_refined deploy_world deploy_request)) = Envelope e
        \<and> tokensUsed e = 57)"
proof -
  obtain rep tr where s: "find_meme_simple png_cat_world cat_request = (rep, tr)"
    by (cases "find_meme_simple png_cat_world cat_request") auto
  obtain rep' tr' where r: "find_meme_refined deploy_world deploy_request = (rep', tr')"
    by (cases "find_meme_refined deploy_world deploy_request") auto
  have st: "status rep = 200" "status rep' = 200"
    using s r by (auto simp: cat_png_run deploy_run json_reply_def)
  have c: "w_completion deploy_world (take 1 tr') = Resolves deploy_completion"
    by (simp add: deploy_world_def google_world_def offline_def)
  have u: "usage deploy_completion = Some \<lparr>total_tokens = 57\<rparr>"
    by (simp add: deploy_completion_def)
  from C6_tokens_used [of png_cat_world cat_request rep tr deploy_world deploy_request rep' tr']
    s r st c u
  show ?thesis by auto
qed

text \<open>
  C7. In the refined variant the search query, the one sent in the second outbound call,
  is the trimmed content of the first choice of the completion; when the content is
  absent, or empty once trimmed, it is the raw input text. (The call is made when the
  completion returns a first choice and the query is well-formed UTF-16.)
\<close>

theorem C7_search_query:
  assumes "text_field req = Some t" and "t \<noteq> []"
    and "w_completion w [ChatCompletion (requested_model req) t] = Resolves c"
    and "choices c = ch # chs"
    and "isWellFormed (or_default (map_option trim (content ch)) t)"
  shows "take 2 (snd (find_meme_refined w req))
           = [ChatCompletion (requested_model req) t,
              GoogleSearch (case content ch of
                              None \<Rightarrow> t
                            | Some s \<Rightarrow> if trim s = [] then t else trim s)]"
proof -
  have q: "or_default (map_option trim (content ch)) t
             = (case content ch of None \<Rightarrow> t | Some s \<Rightarrow> if trim s = [] then t else trim s)"
    by (cases "content ch") simp_all
  have "take (Suc (length [ChatCompletion (requested_model req) t]))
          (snd (find_meme_refined w req))
          = [ChatCompletion (requested_model req) t]
            @ [GoogleSearch (or_default (map_option trim (content ch)) t)]"
    unfolding refined_snd refined_reaches_step2 [OF assms(1-4)]
    by (rule step2_trace_prefix [OF assms(5)])
  then show ?thesis
    by (simp add: q numeral_2_eq_2)
qed

theorem C7_search_query_witness:
  "take 2 (snd (find_meme_refined deploy_world deploy_request))
     = [ChatCompletion (lit ''gpt-4o'') (lit ''when the deploy fails''),
        GoogleSearch (lit ''deploy fail panic meme'')]
 \<and> content (hd (choices silent_completion)) = Some (lit ''  '')
 \<and> take 2 (snd (find_meme_refined silent_world deploy_request))
     = [ChatCompletion (lit ''gpt-4o'') (lit ''when the deploy fails''),
        GoogleSearch (lit ''when the deploy fails'')]"
proof -
  have t: "text_field deploy_request = Some (lit ''when the deploy fails'')"
    "lit ''when the deploy fails'' \<noteq> []" "requested_model deploy_request = lit ''gpt-4o''"
    by (simp_all add: deploy_request_def requested_model_def)
  have d: "w_completion deploy_world
             [ChatCompletion (requested_model deploy_request) (lit ''when the deploy fails'')]
             = Resolves deploy_completion"
    "choices deploy_completion = [\<lparr>content = Some (lit '' deploy fail panic meme '')\<rparr>]"
    by (simp_all add: deploy_world_def google_world_def offline_def deploy_completion_def)
  have s: "w_completion silent_world
             [ChatCompletion (requested_model deploy_request) (lit ''when the deploy fails'')]
             = Resolves silent_completion"
    "choices silent_completion = [\<lparr>content = Some (lit ''  '')\<rparr>]"
    by (simp_all add: silent_world_def google_world_def offline_def silent_completion_def)
  have wf: "isWellFormed (or_default
      (map_option trim (content \<lparr>content = Some (lit '' deploy fail panic meme '')\<rparr>))
      (lit ''when the deploy fails''))"
    "isWellFormed (or_default (map_option trim (content \<lparr>content = Some (lit ''  '')\<rparr>))
      (lit ''when the deploy fails''))"
    by (simp_all add: trim_deploy trim_blank) (simp_all add: lit_def)
  from C7_search_query [OF t(1,2) d wf(1)] C7_search_query [OF t(1,2) s wf(2)] t(3) s(2)
  show ?thesis
    by (simp add: trim_deploy trim_blank)
qed

text \<open>
  C8. When the search call has answered with a success status and no result items (the
  list \<open>data\<close> or \<open>items\<close> absent or empty), the reply has status 404 and an error
  body. Simple variant: the search is the first call. Refined variant: the search is
  the second call, made once the completion has returned a first choice. In both the
  call is made for a query that is well-formed UTF-16.
\<close>

theorem C8_no_items_404:
  "(description_of sreq = Some d \<and> d \<noteq> [] \<and> isWellFormed d
      \<and> w_giphy w [GiphySearch d] = Resolves sr \<and> sr_ok sr
      \<and> (sr_json sr = Resolves None \<or> sr_json sr = Resolves (Some [])) \<longrightarrow>
      status (fst (find_meme_simple w sreq)) = 404
    \<and> is_error (fst (find_meme_simple w sreq)))
 \<and> (text_field rreq = Some t \<and> t \<noteq> []
      \<and> w_completion w' [ChatCompletion (requested_model rreq) t] = Resolves c
      \<and> choices c = ch # chs
      \<and> isWellFormed (or_default (map_option trim (content ch)) t)
      \<and> w_google w' [ChatCompletion (requested_model rreq) t,
                       GoogleSearch (or_default (map_option trim (content ch)) t)] = Resolves sr'
      \<and> sr_ok sr'
      \<and> (sr_json sr' = Resolves None \<or> sr_json sr' = Resolves (Some [])) \<longrightarrow>
      status (fst (find_meme_refined w' rreq)) = 404
    \<and> is_error (fst (find_meme_refined w' rreq)))"
proof (intro conjI impI)
  assume a: "description_of sreq = Some d \<and> d \<noteq> [] \<and> isWellFormed d
      \<and> w_giphy w [GiphySearch d] = Resolves sr \<and> sr_ok sr
      \<and> (sr_json sr = Resolves None \<or> sr_json sr = Resolves (Some []))"
  then have h: "description_of sreq = Some d" "d \<noteq> []"
    "w_giphy w [GiphySearch d] = Resolves sr" "sr_ok sr"
    "sr_json sr = Resolves None \<or> sr_json sr = Resolves (Some [])" "isWellFormed d"
    by blast+
  note simple_no_items [OF h]
  then show "status (fst (find_meme_simple w sreq)) = 404"
    and "is_error (fst (find_meme_simple w sreq))"
    by (simp_all add: error_reply_def is_error_def)
next
  assume a: "text_field rreq = Some t \<and> t \<noteq> []
      \<and> w_completion w' [ChatCompletion (requested_model rreq) t] = Resolves c
      \<and> choices c = ch # chs
      \<and> isWellFormed (or_default (map_option trim (content ch)) t)
      \<and> w_google w' [ChatCompletion (requested_model rreq) t,
                       GoogleSearch (or_default (map_option trim (content ch)) t)] = Resolves sr'
      \<and> sr_ok sr'
      \<and> (sr_json sr' = Resolves None \<or> sr_json sr' = Resolves (Some []))"
  then have h: "text_field rreq = Some t" "t \<noteq> []"
    "w_completion w' [ChatCompletion (requested_model rreq) t] = Resolves c"
    "choices c = ch # chs"
    and g: "w_google w' ([ChatCompletion (requested_model rreq) t]
              @ [GoogleSearch (or_default (map_option trim (content ch)) t)]) = Resolves sr'"
    "sr_ok sr'" "sr_json sr' = Resolves None \<or> sr_json sr' = Resolves (Some [])"
    "isWellFormed (or_default (map_option trim (content ch)) t)"
    by simp_all
  note body = refined_reaches_step2 [OF h]
  note step2_no_items [OF g, of c]
  with body have "fst (find_meme_refined w' rreq)
      = error_reply 404 (lit ''No meme found for this description.'')"
    by (intro refined_fst_Inr) simp
  then show "status (fst (find_meme_refined w' rreq)) = 404"
    and "is_error (fst (find_meme_refined w' rreq))"
    by (simp_all add: error_reply_def is_error_def)
qed

theorem C8_no_items_witness:
  "w_giphy no_gif_world [GiphySearch (lit ''cat typing'')] = Resolves (search_ok (Some []))
 \<and> find_meme_simple no_gif_world cat_request
     = (\<lparr>status = 404, body = ErrorBody (lit ''No meme found for this description.'')\<rparr>,
        [GiphySearch (lit ''cat typing'')])
 \<and> w_google no_result_world
       [ChatCompletion (lit ''gpt-4o'') (lit ''when the deploy fails''),
        GoogleSearch (lit ''deploy fail panic meme'')] = Resolves (search_ok None)
 \<and> status (fst (find_meme_refined no_result_world deploy_request)) = 404
 \<and> is_error (fst (find_meme_refined no_result_world deploy_request))"
proof -
  have d: "description_of cat_request = Some (lit ''cat typing'')" "lit ''cat typing'' \<noteq> []"
    by (simp_all add: description_of_def cat_request_def)
  have g: "w_giphy no_gif_world [GiphySearch (lit ''cat typing'')]
             = Resolves (search_ok (Some []))"
    by (simp add: no_gif_world_def giphy_world_def offline_def)
  have ok: "sr_ok (search_ok (Some []) :: giphy_item search_response)"
    "sr_json (search_ok (Some []) :: giphy_item search_response) = Resolves (Some [])"
    "sr_ok (search_ok None :: google_item search_response)"
    "sr_json (search_ok None :: google_item search_response) = Resolves None"
    by (simp_all add: search_ok_def)
  have t: "text_field deploy_request = Some (lit ''when the deploy fails'')"
    "lit ''when the deploy fails'' \<noteq> []" "requested_model deploy_request = lit ''gpt-4o''"
    by (simp_all add: deploy_request_def requested_model_def)
  have c: "w_completion no_result_world
             [ChatCompletion (requested_model deploy_request) (lit ''when the deploy fails'')]
             = Resolves deploy_completion"
    "choices deploy_completion = [\<lparr>content = Some (lit '' deploy fail panic meme '')\<rparr>]"
    by (simp_all add: no_result_world_def google_world_def offline_def deploy_completion_def)
  have s: "w_google no_result_world tr = Resolves (search_ok None)" for tr
    by (simp add: no_result_world_def google_world_def offline_def)
  have wf: "isWellFormed (lit ''cat typing'')"
    "isWellFormed (or_default
      (map_option trim (content \<lparr>content = Some (lit '' deploy fail panic meme '')\<rparr>))
      (lit ''when the deploy fails''))"
    by (simp_all add: trim_deploy) (simp_all add: lit_def)
  have run: "find_meme_simple no_gif_world cat_request
     = (error_reply 404 (lit ''No meme found for this description.''),
        [GiphySearch (lit ''cat typing'')])"
    using simple_no_items [OF d g ok(1) _ wf(1)] ok(2) by simp
  from C8_no_items_404
    [of cat_request "lit ''cat typing''" no_gif_world "search_ok (Some [])"
        deploy_request "lit ''when the deploy fails''" no_result_world deploy_completion
        "\<lparr>content = Some (lit '' deploy fail panic meme '')\<rparr>" "[]" "search_ok None"]
    d g ok t c s run wf
  show ?thesis
    by (simp add: error_reply_def)
qed

text \<open>
  C9. In the simple variant a body without the \<open>args\<close> object is answered with status
  400 and the body \<open>{error: 'Missing description parameter'}\<close>, not with a 500.
\<close>

theorem C9_no_args_400:
  "args req = None \<Longrightarrow>
     find_meme_simple w req
       = (\<lparr>status = 400, body = ErrorBody (lit ''Missing description parameter'')\<rparr>, [])"
  by (simp add: simple_missing description_of_def error_reply_def)

theorem C9_no_args_witness:
  "args \<lparr>args = None\<rparr> = None
 \<and> find_meme_simple offline \<lparr>args = None\<rparr>
     = (\<lparr>status = 400, body = ErrorBody (lit ''Missing description parameter'')\<rparr>, [])"
  using C9_no_args_400 [of "\<lparr>args = None\<rparr>" offline] by simp

text \<open>
  C10. On a successful response of the refined variant the artifact's \<open>mimeType\<close> is the
  content type of the answer to the last outbound call, the GET of the image, and it
  begins with \<open>image/\<close>. So a GET whose content type is absent or is not an image type
  never gives a successful response.
\<close>

theorem C10_mime_type_of_final_get:
  assumes "find_meme_refined w req = (rep, tr)" and "status rep = 200"
  shows "\<exists>url ir mt.
           last tr = ImageFetch url True \<and> w_get w tr = Resolves ir
         \<and> ir_content_type ir = Some mt \<and> startsWith mt (lit ''image/'')
         \<and> map art_mimeType (reply_artifacts rep) = [mt]"
  using refined_success [OF assms]
  by (elim exE conjE) (auto simp: json_reply_def reply_artifacts_def)

theorem C10_mime_type_witness:
  "third_only (lit ''c'') = Resolves \<lparr>hr_ok = True, hr_content_type = Some (lit ''image/png'')\<rparr>
 \<and> w_get deploy_world (snd (find_meme_refined deploy_world deploy_request))
      = Resolves (image_ok (Some (lit ''image/jpeg'')) [1, 2, 3])
 \<and> status (fst (find_meme_refined deploy_world deploy_request)) = 200
 \<and> map art_mimeType (reply_artifacts (fst (find_meme_refined deploy_world deploy_request)))
      = [lit ''image/jpeg'']"
proof -
  obtain rep tr where r: "find_meme_refined deploy_world deploy_request = (rep, tr)"
    by (cases "find_meme_refined deploy_world deploy_request") auto
  have st: "status rep = 200"
    using r by (auto simp: deploy_run json_reply_def)
  have g: "w_get deploy_world tr = Resolves (image_ok (Some (lit ''image/jpeg'')) [1, 2, 3])"
    by (simp add: deploy_world_def google_world_def offline_def)
  have h: "third_only (lit ''c'')
             = Resolves \<lparr>hr_ok = True, hr_content_type = Some (lit ''image/png'')\<rparr>"
    by (simp add: third_only_def lit_def)
  from C10_mime_type_of_final_get [OF r st] g
  have "map art_mimeType (reply_artifacts rep) = [lit ''image/jpeg'']"
    by (auto simp: image_ok_def)
  with r st g h show ?thesis by simp
qed

end
